theory Spec2Isabelle
  imports Complex_Main "HOL-Library.Word" "HOL-Library.Sublist" "HOL-Library.Multiset"
    "HOL-Library.Char_ord" "HOL-Library.List_Lexorder" "HOL-Library.AList"
begin

unbundle bit_operations_syntax

section \<open>Strings\<close>

text \<open>
  A JavaScript string is modelled as a \<^typ>\<open>string\<close>: a list of 8-bit characters, that is the
  strings whose UTF-16 code units are all below 256. \<open>toLowerCase\<close> maps \<open>A\<close>..\<open>Z\<close> to
  \<open>a\<close>..\<open>z\<close> (it sets bit 5 of the character code) and leaves every other character alone,
  which is what JavaScript does on ASCII; the case mapping of the letters beyond ASCII is not
  modelled.
\<close>

definition toLowerChar :: "char \<Rightarrow> char" where
  "toLowerChar c =
     (if CHR ''A'' \<le> c \<and> c \<le> CHR ''Z''
      then (case c of Char b0 b1 b2 b3 b4 b5 b6 b7 \<Rightarrow> Char b0 b1 b2 b3 b4 True b6 b7)
      else c)"

definition toLowerCase :: "string \<Rightarrow> string" where
  "toLowerCase s = map toLowerChar s"

text \<open>\<open>s.startsWith(t)\<close>, \<open>s.includes(t)\<close> and \<open>s.endsWith(t)\<close>.\<close>

fun startsWith :: "string \<Rightarrow> string \<Rightarrow> bool" where
  "startsWith s [] = True"
| "startsWith [] (c # cs) = False"
| "startsWith (x # xs) (c # cs) = (x = c \<and> startsWith xs cs)"

fun includes_str :: "string \<Rightarrow> string \<Rightarrow> bool" where
  "includes_str [] t = (t = [])"
| "includes_str (x # xs) t = (startsWith (x # xs) t \<or> includes_str xs t)"

definition endsWith :: "string \<Rightarrow> string \<Rightarrow> bool" where
  "endsWith s t = startsWith (rev s) (rev t)"

section \<open>The pattern registry\<close>

text \<open>
  A \<open>PatternMatcher\<close> has a name, a priority, a predicate on the field key and a generator.
  The generators are random samplers; the model keeps the name of the generator a matcher
  is bound to and not its body.
\<close>

record PatternMatcher =
  name :: string
  priority :: int
  match :: "string \<Rightarrow> bool"
  generate :: string

text \<open>\<open>createMatcher\<close> wraps the predicate it is given: the key is lower-cased first.\<close>

definition createMatcher :: "string \<Rightarrow> (string \<Rightarrow> bool) \<Rightarrow> string \<Rightarrow> int \<Rightarrow> PatternMatcher" where
  "createMatcher n m g p =
     \<lparr>name = n, priority = p, match = (\<lambda>k. m (toLowerCase k)), generate = g\<rparr>"

text \<open>
  \<open>.sort((a, b) => b.priority - a.priority)\<close>: descending priority. \<open>Array.prototype.sort\<close>
  is stable (ECMAScript 2019), as is the insertion sort \<^const>\<open>sort_key\<close>.
\<close>

definition sortByPriority :: "PatternMatcher list \<Rightarrow> PatternMatcher list" where
  "sortByPriority ps = sort_key (\<lambda>p. - priority p) ps"

text \<open>The array literal of \<open>builtInPatterns\<close>, in the order of its declaration.\<close>

definition declaredPatterns :: "PatternMatcher list" where
  "declaredPatterns =
   [createMatcher ''uuid'' (\<lambda>k. k = ''uuid'' \<or> k = ''guid'') ''uuid'' 100,
    createMatcher ''id'' (\<lambda>k. k = ''id'' \<or> k = ''_id'') ''id'' 100,
    createMatcher ''email'' (\<lambda>k. k = ''email'' \<or> k = ''mail'') ''email'' 100,
    createMatcher ''phone'' (\<lambda>k. k = ''phone'' \<or> k = ''mobile'' \<or> k = ''telephone'') ''phone'' 100,
    createMatcher ''avatar''
      (\<lambda>k. k = ''avatar'' \<or> k = ''profilepicture'' \<or> k = ''profileimage'') ''avatar'' 100,
    createMatcher ''username'' (\<lambda>k. k = ''username'' \<or> k = ''login'') ''username'' 100,
    createMatcher ''password'' (\<lambda>k. k = ''password'' \<or> k = ''passwd'') ''randomString(12)'' 100,
    createMatcher ''firstName''
      (\<lambda>k. k = ''firstname'' \<or> k = ''first_name'' \<or> k = ''givenname'') ''firstName'' 90,
    createMatcher ''lastName''
      (\<lambda>k. k = ''lastname'' \<or> k = ''last_name'' \<or> k = ''surname'' \<or> k = ''familyname'')
      ''lastName'' 90,
    createMatcher ''fullName''
      (\<lambda>k. k = ''fullname'' \<or> k = ''full_name'' \<or> k = ''name'' \<or> k = ''displayname'')
      ''fullName'' 85,
    createMatcher ''city'' (\<lambda>k. k = ''city'' \<or> k = ''town'') ''city'' 90,
    createMatcher ''country'' (\<lambda>k. k = ''country'' \<or> k = ''nation'') ''country'' 90,
    createMatcher ''street'' (\<lambda>k. k = ''street'' \<or> k = ''streetname'') ''street'' 90,
    createMatcher ''zipCode''
      (\<lambda>k. k = ''zipcode'' \<or> k = ''zip'' \<or> k = ''postalcode'' \<or> k = ''postal'') ''zipCode'' 90,
    createMatcher ''address'' (\<lambda>k. k = ''address'' \<or> k = ''location'') ''address'' 85,
    createMatcher ''createdAt''
      (\<lambda>k. k = ''createdat'' \<or> k = ''created_at'' \<or> k = ''creationdate'') ''datetime'' 90,
    createMatcher ''updatedAt''
      (\<lambda>k. k = ''updatedat'' \<or> k = ''updated_at'' \<or> k = ''modifiedat'') ''datetime'' 90,
    createMatcher ''deletedAt'' (\<lambda>k. k = ''deletedat'' \<or> k = ''deleted_at'') ''datetime'' 90,
    createMatcher ''birthDate''
      (\<lambda>k. k = ''birthdate'' \<or> k = ''birthday'' \<or> k = ''dob'' \<or> k = ''dateofbirth'') ''date'' 90,
    createMatcher ''company''
      (\<lambda>k. k = ''company'' \<or> k = ''organization'' \<or> k = ''org'') ''company'' 90,
    createMatcher ''jobTitle''
      (\<lambda>k. k = ''jobtitle'' \<or> k = ''job_title'' \<or> k = ''title'' \<or> k = ''position'' \<or> k = ''role'')
      ''jobTitle'' 85,
    createMatcher ''price'' (\<lambda>k. k = ''price'' \<or> k = ''cost'' \<or> k = ''amount'') ''price'' 90,
    createMatcher ''quantity'' (\<lambda>k. k = ''quantity'' \<or> k = ''qty'' \<or> k = ''stock'') ''quantity'' 90,
    createMatcher ''sku'' (\<lambda>k. k = ''sku'' \<or> k = ''productcode'') ''sku'' 90,
    createMatcher ''category'' (\<lambda>k. k = ''category'' \<or> k = ''type'') ''category'' 85,
    createMatcher ''color'' (\<lambda>k. k = ''color'' \<or> k = ''colour'') ''color'' 90,
    createMatcher ''rating'' (\<lambda>k. k = ''rating'' \<or> k = ''score'' \<or> k = ''stars'') ''rating'' 90,
    createMatcher ''status'' (\<lambda>k. k = ''status'' \<or> k = ''state'') ''status'' 90,
    createMatcher ''description''
      (\<lambda>k. k = ''description'' \<or> k = ''desc'' \<or> k = ''summary'') ''description'' 85,
    createMatcher ''content'' (\<lambda>k. k = ''content'' \<or> k = ''body'' \<or> k = ''text'') ''content'' 85,
    createMatcher ''url'' (\<lambda>k. k = ''url'' \<or> k = ''link'' \<or> k = ''href'') ''url'' 90,
    createMatcher ''website''
      (\<lambda>k. k = ''website'' \<or> k = ''site'' \<or> k = ''homepage'') ''websiteUrl'' 90,
    createMatcher ''containsEmail'' (\<lambda>k. includes_str k ''email'') ''email'' 70,
    createMatcher ''containsPhone''
      (\<lambda>k. includes_str k ''phone'' \<or> includes_str k ''mobile'' \<or> includes_str k ''tel'') ''phone'' 70,
    createMatcher ''containsName''
      (\<lambda>k. includes_str k ''name'' \<and> \<not> includes_str k ''file'' \<and> \<not> includes_str k ''user'') ''fullName'' 60,
    createMatcher ''containsUrl'' (\<lambda>k. includes_str k ''url'' \<or> includes_str k ''link'') ''url'' 70,
    createMatcher ''containsImage''
      (\<lambda>k. includes_str k ''image'' \<or> includes_str k ''img'' \<or> includes_str k ''photo'' \<or> includes_str k ''picture'')
      ''imageUrl'' 70,
    createMatcher ''containsPrice''
      (\<lambda>k. includes_str k ''price'' \<or> includes_str k ''cost'' \<or> includes_str k ''fee'') ''price'' 70,
    createMatcher ''containsDate'' (\<lambda>k. includes_str k ''date'' \<or> includes_str k ''time'') ''datetime'' 65,
    createMatcher ''containsAddress''
      (\<lambda>k. includes_str k ''address'' \<or> includes_str k ''location'') ''address'' 65,
    createMatcher ''containsCity'' (\<lambda>k. includes_str k ''city'') ''city'' 70,
    createMatcher ''containsCountry'' (\<lambda>k. includes_str k ''country'') ''country'' 70,
    createMatcher ''containsDescription''
      (\<lambda>k. includes_str k ''description'' \<or> includes_str k ''desc'') ''description'' 65,
    createMatcher ''containsTitle'' (\<lambda>k. includes_str k ''title'' \<or> includes_str k ''heading'') ''title'' 65,
    createMatcher ''containsCount''
      (\<lambda>k. includes_str k ''count'' \<or> includes_str k ''total'' \<or> includes_str k ''num'') ''count'' 65,
    createMatcher ''suffixId'' (\<lambda>k. endsWith k ''id'' \<and> k \<noteq> ''id'') ''id'' 60,
    createMatcher ''suffixAt'' (\<lambda>k. endsWith k ''at'' \<or> endsWith k ''_at'') ''datetime'' 60,
    createMatcher ''suffixDate'' (\<lambda>k. endsWith k ''date'') ''date'' 60,
    createMatcher ''suffixTime'' (\<lambda>k. endsWith k ''time'') ''time'' 60,
    createMatcher ''suffixUrl'' (\<lambda>k. endsWith k ''url'') ''url'' 60,
    createMatcher ''suffixCount'' (\<lambda>k. endsWith k ''count'') ''count'' 60,
    createMatcher ''prefixIs'' (\<lambda>k. startsWith k ''is'' \<or> startsWith k ''is_'') ''isActive'' 55,
    createMatcher ''prefixHas'' (\<lambda>k. startsWith k ''has'' \<or> startsWith k ''has_'') ''isActive'' 55,
    createMatcher ''prefixCan'' (\<lambda>k. startsWith k ''can'' \<or> startsWith k ''can_'') ''isActive'' 55,
    createMatcher ''prefixTotal''
      (\<lambda>k. startsWith k ''total'' \<or> startsWith k ''total_'') ''total'' 55,
    createMatcher ''prefixNum'' (\<lambda>k. startsWith k ''num'' \<or> startsWith k ''num_'') ''count'' 55,
    createMatcher ''latitude'' (\<lambda>k. k = ''lat'' \<or> k = ''latitude'') ''latitude'' 90,
    createMatcher ''longitude'' (\<lambda>k. k = ''lng'' \<or> k = ''lon'' \<or> k = ''longitude'') ''longitude'' 90,
    createMatcher ''ip'' (\<lambda>k. k = ''ip'' \<or> k = ''ipaddress'' \<or> k = ''ip_address'') ''ip'' 90,
    createMatcher ''token''
      (\<lambda>k. k = ''token'' \<or> k = ''accesstoken'' \<or> k = ''refreshtoken'') ''token'' 90,
    createMatcher ''version'' (\<lambda>k. k = ''version'' \<or> k = ''ver'') ''version'' 90]"

definition builtInPatterns :: "PatternMatcher list" where
  "builtInPatterns = sortByPriority declaredPatterns"

text \<open>
  \<open>findPattern(key, path)\<close>: the first pattern of the sorted array whose \<open>match\<close> accepts the
  key, \<open>null\<close> (here \<open>None\<close>) when there is none. \<open>findIn\<close> is its loop over an arbitrary array.
\<close>

definition findIn :: "PatternMatcher list \<Rightarrow> string \<Rightarrow> PatternMatcher option" where
  "findIn ps k = find (\<lambda>p. match p k) ps"

definition findPattern :: "string \<Rightarrow> string \<Rightarrow> PatternMatcher option" where
  "findPattern k pth = findIn builtInPatterns k"

text \<open>The keys that the exact-name matchers (priority 90 and above) accept.\<close>

definition exactKeys :: "string list" where
  "exactKeys = [''uuid'', ''guid'', ''id'', ''_id'', ''email'', ''mail'', ''phone'', ''mobile'',
    ''telephone'', ''avatar'', ''profilepicture'', ''profileimage'', ''username'', ''login'',
    ''password'', ''passwd'', ''firstname'', ''first_name'', ''givenname'', ''lastname'',
    ''last_name'', ''surname'', ''familyname'', ''city'', ''town'', ''country'', ''nation'',
    ''street'', ''streetname'', ''zipcode'', ''zip'', ''postalcode'', ''postal'', ''createdat'',
    ''created_at'', ''creationdate'', ''updatedat'', ''updated_at'', ''modifiedat'', ''deletedat'',
    ''deleted_at'', ''birthdate'', ''birthday'', ''dob'', ''dateofbirth'', ''company'',
    ''organization'', ''org'', ''price'', ''cost'', ''amount'', ''quantity'', ''qty'', ''stock'',
    ''sku'', ''productcode'', ''color'', ''colour'', ''rating'', ''score'', ''stars'', ''status'',
    ''state'', ''url'', ''link'', ''href'', ''website'', ''site'', ''homepage'', ''lat'',
    ''latitude'', ''lng'', ''lon'', ''longitude'', ''ip'', ''ipaddress'', ''ip_address'', ''token'',
    ''accesstoken'', ''refreshtoken'', ''version'', ''ver'']"

section \<open>JSON values\<close>

text \<open>
  The records that are filled are JSON data: a value is \<open>undefined\<close>, \<open>null\<close>, a boolean, a
  number, a string, an array or an object. An object is a plain object, as \<open>JSON.parse\<close> and
  an object literal make it: the list of its own enumerable properties, with distinct keys,
  in the order of their insertion (JavaScript enumerates the keys that are array indices
  before the others; the model keeps the order of insertion throughout), and
  \<open>Object.prototype\<close> as its prototype. An array is the
  list of its elements; a hole of a sparse array reads as \<open>undefined\<close> and is represented by
  \<open>JUndefined\<close>. Numbers are integers here: no function of this development computes with a
  number of a record, and the only property of a number that matters is whether it is zero
  (\<open>NaN\<close>, the other falsy number, is not represented). Values are trees: two positions of a
  record never share a mutable object. The section on the store at the end of the
  definitions drops that last assumption.

  \<open>JNative n\<close> is a value of the runtime that is no JSON data: what a read finds under the
  name \<open>n\<close> on a prototype, when the value that is read has no own property \<open>n\<close>. That is a
  built-in function, and for the name \<open>__proto__\<close> the prototype itself. The model does not
  look into these values: what is read from one of them is \<open>JNative\<close> again, under a name
  with a dot (\<open>JNative ''constructor.name''\<close>), and then stands for a value that the model
  does not determine. As the value of a field of a record, \<open>JNative\<close> stands for a function.
  The runtime is taken in its initial state, with the library of ECMAScript 2024: no member
  has been added to a prototype or removed from one.
\<close>

datatype jsval =
    JUndefined
  | JNull
  | JBool bool
  | JNum int
  | JStr string
  | JArr "jsval list"
  | JObj "(string \<times> jsval) list"
  | JNative string

text \<open>
  The names of the members of \<open>Object.prototype\<close>, which every object, array, string, number
  and boolean inherits, and the names that \<open>Array.prototype\<close>, \<open>String.prototype\<close> and
  \<open>Number.prototype\<close> add to them (\<open>Boolean.prototype\<close> adds none).
\<close>

definition protoNames :: "string list" where
  "protoNames = [''constructor'', ''__defineGetter__'', ''__defineSetter__'', ''hasOwnProperty'',
     ''__lookupGetter__'', ''__lookupSetter__'', ''isPrototypeOf'', ''propertyIsEnumerable'',
     ''toString'', ''valueOf'', ''__proto__'', ''toLocaleString'']"

definition arrayProtoNames :: "string list" where
  "arrayProtoNames = [''at'', ''concat'', ''copyWithin'', ''entries'', ''every'', ''fill'',
     ''filter'', ''find'', ''findIndex'', ''findLast'', ''findLastIndex'', ''flat'', ''flatMap'',
     ''forEach'', ''includes'', ''indexOf'', ''join'', ''keys'', ''lastIndexOf'', ''map'', ''pop'',
     ''push'', ''reduce'', ''reduceRight'', ''reverse'', ''shift'', ''slice'', ''some'', ''sort'',
     ''splice'', ''toReversed'', ''toSorted'', ''toSpliced'', ''unshift'', ''values'', ''with'']"

definition stringProtoNames :: "string list" where
  "stringProtoNames = [''anchor'', ''at'', ''big'', ''blink'', ''bold'', ''charAt'', ''charCodeAt'',
     ''codePointAt'', ''concat'', ''endsWith'', ''fixed'', ''fontcolor'', ''fontsize'', ''includes'',
     ''indexOf'', ''isWellFormed'', ''italics'', ''lastIndexOf'', ''link'', ''localeCompare'',
     ''match'', ''matchAll'', ''normalize'', ''padEnd'', ''padStart'', ''repeat'', ''replace'',
     ''replaceAll'', ''search'', ''slice'', ''small'', ''split'', ''startsWith'', ''strike'', ''sub'',
     ''substr'', ''substring'', ''sup'', ''toLocaleLowerCase'', ''toLocaleUpperCase'',
     ''toLowerCase'', ''toUpperCase'', ''toWellFormed'', ''trim'', ''trimEnd'', ''trimLeft'',
     ''trimRight'', ''trimStart'']"

definition numberProtoNames :: "string list" where
  "numberProtoNames = [''toExponential'', ''toFixed'', ''toPrecision'']"

text \<open>
  What a function can throw. \<open>Error msg\<close> is \<open>new Error(msg)\<close>; \<open>TypeError\<close> is the error of
  strict-mode code (every module of the package is one) that assigns a property of a
  primitive value; \<open>RangeError\<close> is the error of a recursion that exhausts the call stack;
  \<open>ThrownUndefined\<close> is \<open>throw undefined\<close>. \<open>Unmodelled\<close> is no exception of the program: it
  marks the steps whose effect is not a change of the JSON data, and about which the model
  says nothing: an assignment to a named property (or the length) of an array, an assignment
  that replaces the prototype of an object, and a write into a value of the runtime.
\<close>

datatype exn =
    Error string
  | TypeError
  | RangeError
  | ThrownUndefined
  | Unmodelled

text \<open>
  \<open>!v\<close>: the falsy values are \<open>undefined\<close>, \<open>null\<close>, \<open>false\<close>, \<open>0\<close> and the empty string.
  The functions and prototypes of the runtime are truthy. (A \<open>JNative\<close> with a dotted name,
  which stands for a value that is not determined, is taken for truthy as well: it is only
  met on a walk that has left the record, and whatever \<open>setNestedValue\<close> does from there is
  \<open>Unmodelled\<close>.)
\<close>

fun falsy :: "jsval \<Rightarrow> bool" where
  "falsy JUndefined = True"
| "falsy JNull = True"
| "falsy (JBool b) = (\<not> b)"
| "falsy (JNum n) = (n = 0)"
| "falsy (JStr s) = (s = [])"
| "falsy (JArr xs) = False"
| "falsy (JObj kvs) = False"
| "falsy (JNative n) = False"

text \<open>\<open>Array.isArray(v)\<close>, and the test for a plain object.\<close>

fun isArray :: "jsval \<Rightarrow> bool" where
  "isArray (JArr xs) = True"
| "isArray v = False"

fun isObj :: "jsval \<Rightarrow> bool" where
  "isObj (JObj kvs) = True"
| "isObj v = False"

subsection \<open>Numbers in strings\<close>

text \<open>
  \<open>parseInt(s, 10)\<close> on a string of decimal digits, and \<open>n.toString(radix)\<close> on a natural
  number. Both are exact here; JavaScript rounds integers above \<open>2^53\<close> to the nearest double.
\<close>

definition isDigit :: "char \<Rightarrow> bool" where
  "isDigit c = (CHR ''0'' \<le> c \<and> c \<le> CHR ''9'')"

definition digitVal :: "char \<Rightarrow> nat" where
  "digitVal c = of_char c - 48"

definition parseInt :: "string \<Rightarrow> nat" where
  "parseInt s = foldl (\<lambda>n c. 10 * n + digitVal c) 0 s"

definition digitChar :: "nat \<Rightarrow> char" where
  "digitChar d = ''0123456789abcdefghijklmnopqrstuvwxyz'' ! d"

function toStringRadix :: "nat \<Rightarrow> nat \<Rightarrow> string" where
  "toStringRadix b n =
     (if n < b \<or> b < 2 then [digitChar n]
      else toStringRadix b (n div b) @ [digitChar (n mod b)])"
  by pat_completeness auto
termination
  by (relation "measure (\<lambda>(b, n). n)") auto

declare toStringRadix.simps [simp del]

definition showNat :: "nat \<Rightarrow> string" where
  "showNat n = toStringRadix 10 n"

text \<open>
  A property key is an array index when it is the canonical decimal form of a number
  (no sign, no leading zero): \<open>a["1"]\<close> is \<open>a[1]\<close>, but \<open>a["01"]\<close> is a named property.
\<close>

definition arrayIndex :: "string \<Rightarrow> nat option" where
  "arrayIndex k =
     (if k \<noteq> [] \<and> list_all isDigit k \<and> (k = ''0'' \<or> hd k \<noteq> CHR ''0'')
      then Some (parseInt k) else None)"

section \<open>Path addressing\<close>

text \<open>
  \<open>path.split('.')\<close>: the segments between the dots; there is always at least one, and a
  segment may be empty.
\<close>

definition splitDot_step :: "char \<Rightarrow> string list \<Rightarrow> string list" where
  "splitDot_step c acc =
     (if c = CHR ''.'' then [] # acc
      else (case acc of [] \<Rightarrow> [[c]] | p # ps \<Rightarrow> (c # p) # ps))"

definition splitDot :: "string \<Rightarrow> string list" where
  "splitDot s = foldr splitDot_step s [[]]"

text \<open>
  \<open>part.match(/^(.+)\[(\d+)\]$/)\<close>: the segment ends with \<open>]\<close>, before it comes a non-empty
  run of digits, before that \<open>[\<close>, and before that a non-empty array key, in which \<open>.\<close> of
  the regular expression matches no line terminator. Where the expression matches, that
  decomposition is the only one, so the greediness of \<open>.+\<close> plays no part. The result is the
  array key and \<open>parseInt\<close> of the digits.
\<close>

definition lineTerminator :: "char \<Rightarrow> bool" where
  "lineTerminator c = (c = CHR 0x0A \<or> c = CHR 0x0D)"

definition arrayMatch :: "string \<Rightarrow> (string \<times> nat) option" where
  "arrayMatch part =
     (case rev part of
        [] \<Rightarrow> None
      | c # r \<Rightarrow>
          if c \<noteq> CHR '']'' then None
          else (case dropWhile isDigit r of
                  [] \<Rightarrow> None
                | b # x \<Rightarrow>
                    if b = CHR ''['' \<and> takeWhile isDigit r \<noteq> [] \<and> x \<noteq> []
                       \<and> \<not> list_ex lineTerminator x
                    then Some (rev x, parseInt (rev (takeWhile isDigit r)))
                    else None))"

subsection \<open>Reading and writing one property\<close>

text \<open>
  \<open>arr[i] = v\<close>: inside the array the element is replaced; beyond its end the array grows,
  and the positions in between are holes.
\<close>

definition setAt :: "jsval list \<Rightarrow> nat \<Rightarrow> jsval \<Rightarrow> jsval list" where
  "setAt xs i v =
     (if i < length xs then xs[i := v]
      else xs @ replicate (i - length xs) JUndefined @ [v])"

text \<open>
  \<open>Object.prototype.hasOwnProperty.call(o, k)\<close>.
\<close>

fun hasOwn :: "jsval \<Rightarrow> string \<Rightarrow> bool" where
  "hasOwn (JObj kvs) k = (map_of kvs k \<noteq> None)"
| "hasOwn (JArr xs) k =
     (case arrayIndex k of Some i \<Rightarrow> i < length xs | None \<Rightarrow> k = ''length'')"
| "hasOwn (JStr s) k =
     (case arrayIndex k of Some i \<Rightarrow> i < length s | None \<Rightarrow> k = ''length'')"
| "hasOwn v k = False"

text \<open>
  \<open>o[k]\<close> for a string key. An own property comes first: a property of an object, an element
  or the length of an array, a character or the length of a string. Without an own property
  the read goes to the prototype and finds one of its members or \<open>undefined\<close>. (Reading a
  property of \<open>null\<close> or \<open>undefined\<close> throws in JavaScript: \<open>setNestedValue\<close> only descends
  into truthy values and \<open>getNestedValue\<close> returns before it would do so.)
\<close>

definition inherited :: "string list \<Rightarrow> string \<Rightarrow> jsval" where
  "inherited names k = (if k \<in> set names then JNative k else JUndefined)"

fun getProp :: "jsval \<Rightarrow> string \<Rightarrow> jsval" where
  "getProp (JObj kvs) k =
     (case map_of kvs k of Some v \<Rightarrow> v | None \<Rightarrow> inherited protoNames k)"
| "getProp (JArr xs) k =
     (case arrayIndex k of
        Some i \<Rightarrow> if i < length xs then xs ! i else JUndefined
      | None \<Rightarrow>
          if k = ''length'' then JNum (int (length xs))
          else inherited (protoNames @ arrayProtoNames) k)"
| "getProp (JStr s) k =
     (case arrayIndex k of
        Some i \<Rightarrow> if i < length s then JStr [s ! i] else JUndefined
      | None \<Rightarrow>
          if k = ''length'' then JNum (int (length s))
          else inherited (protoNames @ stringProtoNames) k)"
| "getProp (JNum n) k = inherited (protoNames @ numberProtoNames) k"
| "getProp (JBool b) k = inherited protoNames k"
| "getProp (JNative n) k = JNative (n @ ''.'' @ k)"
| "getProp JNull k = JUndefined"
| "getProp JUndefined k = JUndefined"

text \<open>
  \<open>o[i]\<close> for a number: the property whose key is the decimal form of the number. No
  prototype has a member with such a name.
\<close>

fun getIdx :: "jsval \<Rightarrow> nat \<Rightarrow> jsval" where
  "getIdx (JArr xs) i = (if i < length xs then xs ! i else JUndefined)"
| "getIdx (JObj kvs) i = (case map_of kvs (showNat i) of Some v \<Rightarrow> v | None \<Rightarrow> JUndefined)"
| "getIdx (JStr s) i = (if i < length s then JStr [s ! i] else JUndefined)"
| "getIdx (JNative n) i = JNative (n @ ''.'' @ showNat i)"
| "getIdx v i = JUndefined"

text \<open>
  \<open>o.__proto__ = v\<close> where \<open>o\<close> has no own property \<open>__proto__\<close> calls the setter that
  \<open>Object.prototype\<close> has for this name: \<open>v\<close> becomes the prototype of \<open>o\<close> when \<open>o\<close> is an
  object and \<open>v\<close> is an object, a function or \<open>null\<close>, and nothing happens otherwise; no
  property is created. \<open>replacesPrototype v\<close> says that \<open>v\<close> is such a value.
\<close>

fun replacesPrototype :: "jsval \<Rightarrow> bool" where
  "replacesPrototype JNull = True"
| "replacesPrototype (JObj kvs) = True"
| "replacesPrototype (JArr xs) = True"
| "replacesPrototype (JNative n) = True"
| "replacesPrototype v = False"

text \<open>
  \<open>o[k] = v\<close> and \<open>o[i] = v\<close>. An object gets the property, at its place if it exists and
  at the end otherwise (also when the key is the name of a member that it inherits, which
  the new property then hides); an array gets the element. The key \<open>__proto__\<close> is the
  exception described above: an object without an own property of this name is left as it
  is, and where its prototype would change the step is \<open>Unmodelled\<close>. Assigning a property
  of a primitive value throws a \<open>TypeError\<close> in strict mode, except that \<open>__proto__\<close> again
  calls the setter, which does nothing to a boolean, a number or a string. A write into a
  value of the runtime is \<open>Unmodelled\<close>.
\<close>

fun setProp :: "jsval \<Rightarrow> string \<Rightarrow> jsval \<Rightarrow> exn + jsval" where
  "setProp (JObj kvs) k v =
     (if k = ''__proto__'' \<and> map_of kvs k = None
      then (if replacesPrototype v then Inl Unmodelled else Inr (JObj kvs))
      else Inr (JObj (AList.update k v kvs)))"
| "setProp (JArr xs) k v =
     (case arrayIndex k of Some i \<Rightarrow> Inr (JArr (setAt xs i v)) | None \<Rightarrow> Inl Unmodelled)"
| "setProp (JNative n) k v = Inl Unmodelled"
| "setProp JNull k v = Inl TypeError"
| "setProp JUndefined k v = Inl TypeError"
| "setProp c k v = (if k = ''__proto__'' then Inr c else Inl TypeError)"

fun setIdx :: "jsval \<Rightarrow> nat \<Rightarrow> jsval \<Rightarrow> exn + jsval" where
  "setIdx (JArr xs) i v = Inr (JArr (setAt xs i v))"
| "setIdx (JObj kvs) i v = Inr (JObj (AList.update (showNat i) v kvs))"
| "setIdx (JNative n) i v = Inl Unmodelled"
| "setIdx c i v = Inl TypeError"

text \<open>Sequencing of steps that may throw.\<close>

definition bindE :: "exn + 'a \<Rightarrow> ('a \<Rightarrow> exn + 'b) \<Rightarrow> exn + 'b" where
  "bindE r f = (case r of Inl e \<Rightarrow> Inl e | Inr x \<Rightarrow> f x)"

subsection \<open>\<open>setNestedValue\<close> and \<open>getNestedValue\<close>\<close>

text \<open>
  \<open>if (!current[k]) current[k] = fresh\<close>, for a property and for an element of an array.
\<close>

definition ensureProp :: "jsval \<Rightarrow> string \<Rightarrow> jsval \<Rightarrow> exn + jsval" where
  "ensureProp cur k fresh = (if falsy (getProp cur k) then setProp cur k fresh else Inr cur)"

definition ensureIdx :: "jsval \<Rightarrow> nat \<Rightarrow> jsval \<Rightarrow> exn + jsval" where
  "ensureIdx arr i fresh = (if falsy (getIdx arr i) then setIdx arr i fresh else Inr arr)"

text \<open>
  \<open>setNestedValue(obj, path, value)\<close> walks the segments but the last with a pointer
  \<open>current\<close> into the record, creating what is falsy on the way, and writes at the last
  segment. The source mutates the record in place; the model returns the new record, so each
  level puts the changed child back where the pointer went through (\<open>putBack\<close>; in the source
  the child is the same object, changed in place, and nothing is assigned: where the pointer
  went through a string, whose characters cannot change, nothing is put back).
  \<open>setParts cur parts v\<close> is the rest of the walk from \<open>current = cur\<close>; its first equation is
  never reached, since \<open>split\<close> returns at least one segment.
\<close>

definition putBack :: "jsval \<Rightarrow> string \<Rightarrow> jsval \<Rightarrow> exn + jsval" where
  "putBack c k child = (if isObj c \<or> isArray c then setProp c k child else Inr c)"

definition putBackIdx :: "jsval \<Rightarrow> nat \<Rightarrow> jsval \<Rightarrow> exn + jsval" where
  "putBackIdx a i child = (if isObj a \<or> isArray a then setIdx a i child else Inr a)"

fun setParts :: "jsval \<Rightarrow> string list \<Rightarrow> jsval \<Rightarrow> exn + jsval" where
  "setParts cur [] v = Inr cur"
| "setParts cur [lastPart] v =
     (case arrayMatch lastPart of
        Some (arrayKey, index) \<Rightarrow>
          bindE (ensureProp cur arrayKey (JArr [])) (\<lambda>c1.
          bindE (setIdx (getProp c1 arrayKey) index v) (\<lambda>arr.
          putBack c1 arrayKey arr))
      | None \<Rightarrow> setProp cur lastPart v)"
| "setParts cur (part # rest) v =
     (case arrayMatch part of
        Some (arrayKey, index) \<Rightarrow>
          bindE (ensureProp cur arrayKey (JArr [])) (\<lambda>c1.
          bindE (ensureIdx (getProp c1 arrayKey) index (JObj [])) (\<lambda>arr1.
          bindE (setParts (getIdx arr1 index) rest v) (\<lambda>child.
          bindE (putBackIdx arr1 index child) (\<lambda>arr2.
          putBack c1 arrayKey arr2))))
      | None \<Rightarrow>
          bindE (ensureProp cur part (JObj [])) (\<lambda>c1.
          bindE (setParts (getProp c1 part) rest v) (\<lambda>child.
          putBack c1 part child)))"

definition setNestedValue :: "jsval \<Rightarrow> string \<Rightarrow> jsval \<Rightarrow> exn + jsval" where
  "setNestedValue obj pth v = setParts obj (splitDot pth) v"



subsection \<open>Paths without a conflicting intermediate value\<close>

text \<open>
  \<open>canHold c k\<close>: an assignment \<open>c[k] = v\<close> gives \<open>c\<close> the property \<open>k\<close>, as JSON data: \<open>c\<close> is
  an object, and \<open>k\<close> is not the name \<open>__proto__\<close> unless the object has an own property of
  this name; or \<open>c\<close> is an array and \<open>k\<close> an index. \<open>orFresh w fresh\<close> is the value that a walk
  goes on with where it has found \<open>w\<close>: the new object or array in place of a falsy value.
  \<open>noConflict cur parts\<close> says that the walk of \<open>parts\<close> from \<open>cur\<close> only meets values of the
  kind the path needs: every container that it passes through or writes to can hold the
  next key, and what stands at the key of an indexed segment, or is created there, is an
  array. A member that is inherited from a prototype (\<open>constructor\<close>, \<open>__proto__\<close>, ...) is a
  value of the runtime and holds nothing, so that a path through one is in conflict.
\<close>

definition canHold :: "jsval \<Rightarrow> string \<Rightarrow> bool" where
  "canHold c k =
     ((isObj c \<and> (k \<noteq> ''__proto__'' \<or> hasOwn c k)) \<or> (isArray c \<and> arrayIndex k \<noteq> None))"

definition orFresh :: "jsval \<Rightarrow> jsval \<Rightarrow> jsval" where
  "orFresh w fresh = (if falsy w then fresh else w)"

fun noConflict :: "jsval \<Rightarrow> string list \<Rightarrow> bool" where
  "noConflict cur [] = True"
| "noConflict cur [lastPart] =
     (case arrayMatch lastPart of
        Some (arrayKey, index) \<Rightarrow>
          canHold cur arrayKey \<and> isArray (orFresh (getProp cur arrayKey) (JArr []))
      | None \<Rightarrow> canHold cur lastPart)"
| "noConflict cur (part # rest) =
     (case arrayMatch part of
        Some (arrayKey, index) \<Rightarrow>
          canHold cur arrayKey \<and> isArray (orFresh (getProp cur arrayKey) (JArr [])) \<and>
          noConflict
            (orFresh (getIdx (orFresh (getProp cur arrayKey) (JArr [])) index) (JObj [])) rest
      | None \<Rightarrow>
          canHold cur part \<and> noConflict (orFresh (getProp cur part) (JObj [])) rest)"



section \<open>Field extraction\<close>

text \<open>
  \<open>isEmpty(value)\<close>: \<open>null\<close>, \<open>undefined\<close>, a string that \<open>trim()\<close> makes empty, an array of
  length 0, an object without keys. \<open>trim\<close> removes white space and line terminators; among
  the 8-bit characters these are the codes 9 to 13, 32 and 160.
\<close>

definition isNullish :: "jsval \<Rightarrow> bool" where
  "isNullish v = (v = JNull \<or> v = JUndefined)"

definition whiteSpace :: "char \<Rightarrow> bool" where
  "whiteSpace c = (c \<in> set [CHR 0x09, CHR 0x0A, CHR 0x0B, CHR 0x0C, CHR 0x0D, CHR 0x20, CHR 0xA0])"

definition trim :: "string \<Rightarrow> string" where
  "trim s = rev (dropWhile whiteSpace (rev (dropWhile whiteSpace s)))"

fun isEmpty :: "jsval \<Rightarrow> bool" where
  "isEmpty JNull = True"
| "isEmpty JUndefined = True"
| "isEmpty (JStr s) = (trim s = [])"
| "isEmpty (JArr xs) = (length xs = 0)"
| "isEmpty (JObj kvs) = (length (map fst kvs) = 0)"
| "isEmpty v = False"

fun getValueType :: "jsval \<Rightarrow> string" where
  "getValueType JNull = ''null''"
| "getValueType JUndefined = ''undefined''"
| "getValueType (JArr xs) = ''array''"
| "getValueType (JBool b) = ''boolean''"
| "getValueType (JNum n) = ''number''"
| "getValueType (JStr s) = ''string''"
| "getValueType (JObj kvs) = ''object''"
| "getValueType (JNative n) = ''function''"

text \<open>
  \<open>deepClone\<close>: a primitive value and a function are returned as they are, an array is
  mapped, and for an object the loop \<open>cloned[key] = deepClone(obj[key])\<close> over its own keys
  fills a new object (\<open>cloneProps\<close>). For the key \<open>__proto__\<close> the assignment calls the setter
  of \<open>Object.prototype\<close>, since the new object has no own property of this name (see
  \<open>setProp\<close>): no property is created, so the clone lacks this key, and where the prototype
  of the clone would be replaced the result is \<open>Unmodelled\<close>.
\<close>

function (sequential) deepClone :: "jsval \<Rightarrow> exn + jsval"
  and cloneProps :: "(string \<times> jsval) list \<Rightarrow> exn + (string \<times> jsval) list"
  and cloneElems :: "jsval list \<Rightarrow> exn + jsval list"
where
  "deepClone (JArr xs) = bindE (cloneElems xs) (\<lambda>ys. Inr (JArr ys))"
| "deepClone (JObj kvs) = bindE (cloneProps kvs) (\<lambda>ps. Inr (JObj ps))"
| "deepClone v = Inr v"
| "cloneProps [] = Inr []"
| "cloneProps ((k, v) # kvs) =
     bindE (deepClone v) (\<lambda>y.
       if k = ''__proto__''
       then (if replacesPrototype y then Inl Unmodelled else cloneProps kvs)
       else bindE (cloneProps kvs) (\<lambda>r. Inr ((k, y) # r)))"
| "cloneElems [] = Inr []"
| "cloneElems (x # xs) =
     bindE (deepClone x) (\<lambda>y. bindE (cloneElems xs) (\<lambda>ys. Inr (y # ys)))"
  by pat_completeness auto
termination
  by (relation "measure (\<lambda>x. case x of
          Inl v \<Rightarrow> 2 * size v
        | Inr (Inl kvs) \<Rightarrow> 2 * size_list (size_prod (\<lambda>_. 0) size) kvs + 1
        | Inr (Inr xs) \<Rightarrow> 2 * size_list size xs + 1)")
     auto

text \<open>The descriptor of one field. (\<open>value\<close> is the field \<open>value_f\<close>, \<open>isEmpty\<close> is \<open>isEmpty_f\<close>.)\<close>

record FieldInfo =
  key :: string
  path :: string
  value_f :: jsval
  type :: string
  parentKey :: "string option"
  isNull :: bool
  isEmpty_f :: bool
  isUndefined :: bool

definition fieldInfo :: "string \<Rightarrow> string \<Rightarrow> jsval \<Rightarrow> string option \<Rightarrow> FieldInfo" where
  "fieldInfo k currentPath v pk =
     \<lparr>key = k, path = currentPath, value_f = v, type = getValueType v, parentKey = pk,
      isNull = (v = JNull), isEmpty_f = isEmpty v, isUndefined = (v = JUndefined)\<rparr>"

text \<open>\<open>path ? `${path}.${key}` : key\<close> and \<open>`${currentPath}[${index}]`\<close>.\<close>

definition currentPathOf :: "string \<Rightarrow> string \<Rightarrow> string" where
  "currentPathOf pth k = (if pth \<noteq> [] then pth @ ''.'' @ k else k)"

definition indexedPath :: "string \<Rightarrow> nat \<Rightarrow> string" where
  "indexedPath currentPath i = currentPath @ ''['' @ showNat i @ '']''"

text \<open>
  \<open>extractEmptyFields(obj, path, parentKey)\<close>. The loop \<open>for (const key in obj)\<close> visits the
  properties of an object (\<open>extractProps\<close>; in the order of the list, where JavaScript takes
  the keys that are array indices first) or, when an array was passed in as \<open>obj\<close>, its
  indices (\<open>extractElems\<close>). \<open>visit\<close> is the body of the loop for one key and its value;
  the chain of \<open>if\<close>s of the source tests the kind of the value, and \<open>visit\<close> is written by
  cases on it: \<open>null\<close>, \<open>undefined\<close> and the empty string give a descriptor, an object is
  walked, an empty array gives a descriptor, a non-empty array goes to \<open>forEachItem\<close>, and
  anything else gives nothing. \<open>forEachItem\<close> is \<open>value.forEach\<close>: elements that are
  objects or arrays (\<open>typeof item === 'object' && item !== null\<close>) are walked, the others
  are skipped. (Two things are left out: the loop \<open>for ... in\<close> takes the keys of an object
  that are array indices first, in ascending order, where the model keeps the order of the
  list; and both loops pass over the holes of a sparse array, which the model does not
  tell from elements that are \<open>undefined\<close>.)
\<close>

function (sequential) extractEmptyFields :: "jsval \<Rightarrow> string \<Rightarrow> string option \<Rightarrow> FieldInfo list"
  and extractProps :: "(string \<times> jsval) list \<Rightarrow> string \<Rightarrow> string option \<Rightarrow> FieldInfo list"
  and extractElems :: "jsval list \<Rightarrow> nat \<Rightarrow> string \<Rightarrow> string option \<Rightarrow> FieldInfo list"
  and visit :: "string \<Rightarrow> jsval \<Rightarrow> string \<Rightarrow> string option \<Rightarrow> FieldInfo list"
  and forEachItem :: "jsval list \<Rightarrow> nat \<Rightarrow> string \<Rightarrow> string \<Rightarrow> FieldInfo list"
where
  "extractEmptyFields (JObj kvs) pth pk = extractProps kvs pth pk"
| "extractEmptyFields (JArr xs) pth pk = extractElems xs 0 pth pk"
| "extractEmptyFields JUndefined pth pk = []"
| "extractEmptyFields JNull pth pk = []"
| "extractEmptyFields (JBool b) pth pk = []"
| "extractEmptyFields (JNum n) pth pk = []"
| "extractEmptyFields (JStr s) pth pk = []"
| "extractEmptyFields (JNative n) pth pk = []"
| "extractProps [] pth pk = []"
| "extractProps ((k, v) # kvs) pth pk = visit k v pth pk @ extractProps kvs pth pk"
| "extractElems [] i pth pk = []"
| "extractElems (v # vs) i pth pk = visit (showNat i) v pth pk @ extractElems vs (Suc i) pth pk"
| "visit k JNull pth pk = [fieldInfo k (currentPathOf pth k) JNull pk]"
| "visit k JUndefined pth pk = [fieldInfo k (currentPathOf pth k) JUndefined pk]"
| "visit k (JStr s) pth pk =
     (if s = [] then [fieldInfo k (currentPathOf pth k) (JStr s) pk] else [])"
| "visit k (JObj kvs) pth pk = extractEmptyFields (JObj kvs) (currentPathOf pth k) (Some k)"
| "visit k (JArr xs) pth pk =
     (if length xs = 0 then [fieldInfo k (currentPathOf pth k) (JArr xs) pk]
      else forEachItem xs 0 (currentPathOf pth k) k)"
| "visit k (JBool b) pth pk = []"
| "visit k (JNum n) pth pk = []"
| "visit k (JNative n) pth pk = []"
| "forEachItem [] i currentPath k = []"
| "forEachItem (JObj kvs # items) i currentPath k =
     extractEmptyFields (JObj kvs) (indexedPath currentPath i) (Some k)
     @ forEachItem items (Suc i) currentPath k"
| "forEachItem (JArr xs # items) i currentPath k =
     extractEmptyFields (JArr xs) (indexedPath currentPath i) (Some k)
     @ forEachItem items (Suc i) currentPath k"
| "forEachItem (item # items) i currentPath k = forEachItem items (Suc i) currentPath k"
  by pat_completeness auto
termination
  by (relation "measure (\<lambda>x. case x of
          Inl (Inl (v, _)) \<Rightarrow> 2 * size v
        | Inl (Inr (kvs, _)) \<Rightarrow> 2 * size_list (size_prod (\<lambda>_. 0) size) kvs + 1
        | Inr (Inl (xs, _)) \<Rightarrow> 2 * size_list size xs + 1
        | Inr (Inr (Inl (k, v, _))) \<Rightarrow> 2 * size v + 1
        | Inr (Inr (Inr (xs, _))) \<Rightarrow> 2 * size_list size xs + 1)")
     auto

section \<open>The cache key and the cache\<close>

text \<open>
  \<open>simpleHash\<close>: \<open>hash = ((hash << 5) - hash) + char; hash = hash & hash\<close> keeps the hash a
  32-bit integer, here a \<open>32 word\<close>, whose arithmetic wraps the same way; then
  \<open>Math.abs(hash).toString(36)\<close>. \<open>char\<close> is the code unit of the character.
\<close>

definition hashStep :: "32 word \<Rightarrow> char \<Rightarrow> 32 word" where
  "hashStep hash c =
     (let h = (push_bit 5 hash - hash) + of_nat (of_char c) in h AND h)"

definition simpleHash :: "string \<Rightarrow> string" where
  "simpleHash str = toStringRadix 36 (nat \<bar>sint (foldl hashStep 0 str)\<bar>)"

text \<open>\<open>xs.join(sep)\<close>.\<close>

fun joinWith :: "string \<Rightarrow> string list \<Rightarrow> string" where
  "joinWith sep [] = []"
| "joinWith sep [x] = x"
| "joinWith sep (x # xs) = x @ sep @ joinWith sep xs"

text \<open>
  The configuration of the cache, with the defaults of the constructor filled in, and an
  entry. (\<open>prefix\<close> is the field \<open>prefix_c\<close>; the \<open>value\<close> of an entry is \<open>cached\<close>.) The
  cache does not look at the values it keeps, so their type \<open>'v\<close> is left open: trees of
  JSON data in most of this development, references into a store in its last part.
\<close>

record CacheConfig =
  enabled :: bool
  persist :: bool
  ttl :: nat
  prefix_c :: string

record 'v CacheEntry =
  cached :: 'v
  timestamp :: nat
  entry_ttl :: nat

text \<open>
  \<open>generateKey(fields)\<close>: \<open>fields.map(f => `${f.path}:${f.key}`).sort().join('|')\<close>, hashed,
  behind the prefix. \<open>sort()\<close> without a comparator orders strings by their code units, which
  is the lexicographic order of \<^typ>\<open>string\<close>.
\<close>

definition composite :: "FieldInfo \<Rightarrow> string" where
  "composite f = path f @ '':'' @ key f"

definition generateKey :: "CacheConfig \<Rightarrow> FieldInfo list \<Rightarrow> string" where
  "generateKey cfg flds = prefix_c cfg @ simpleHash (joinWith ''|'' (sort (map composite flds)))"

text \<open>
  \<open>get(key)\<close> at the time \<open>now\<close> (\<open>Date.now()\<close>, in milliseconds): \<open>null\<close>, here \<open>None\<close>,
  when the cache is disabled or has no entry; an entry older than its time to live is deleted
  and \<open>null\<close> is returned. \<open>set(key, value)\<close> overwrites. The cache is the \<open>Map\<close> of the manager, a list of
  entries by key here; saving it to \<open>localStorage\<close> is not modelled.
\<close>

type_synonym 'v cache = "(string \<times> 'v CacheEntry) list"

definition cacheGet :: "CacheConfig \<Rightarrow> nat \<Rightarrow> 'v cache \<Rightarrow> string \<Rightarrow> 'v option \<times> 'v cache" where
  "cacheGet cfg now c k =
     (if \<not> enabled cfg then (None, c)
      else (case map_of c k of
              None \<Rightarrow> (None, c)
            | Some entry \<Rightarrow>
                if now > timestamp entry + entry_ttl entry * 1000
                then (None, AList.delete k c)
                else (Some (cached entry), c)))"

definition cacheSet :: "CacheConfig \<Rightarrow> nat \<Rightarrow> 'v cache \<Rightarrow> string \<Rightarrow> 'v \<Rightarrow> 'v cache" where
  "cacheSet cfg now c k v =
     (if \<not> enabled cfg then c
      else AList.update k \<lparr>cached = v, timestamp = now, entry_ttl = ttl cfg\<rparr> c)"

section \<open>Overrides\<close>

text \<open>
  A field override is a literal (string, number, boolean or \<open>null\<close>), a function without
  arguments, or a configuration object with optional members. A function of the caller may
  do anything; it is modelled by what one call of it comes to, a value or an exception.
  (The members \<open>value\<close>, \<open>enum\<close>, \<open>min\<close>, \<open>max\<close> and \<open>length\<close> are the fields \<open>value_o\<close>,
  \<open>enum_o\<close>, \<open>min_o\<close>, \<open>max_o\<close> and \<open>length_o\<close>; a member is \<open>None\<close> when the object does
  not have the key.)
\<close>

type_synonym thunk = "unit \<Rightarrow> exn + jsval"

record FieldOverrideConfig =
  value_o :: "jsval option"
  generator :: "thunk option"
  enum_o :: "jsval list option"
  min_o :: "int option"
  max_o :: "int option"
  length_o :: "int option"

datatype FieldOverrideValue =
    OvLiteral jsval
  | OvFunction thunk
  | OvConfig FieldOverrideConfig

type_synonym FieldOverrides = "(string \<times> FieldOverrideValue) list"

text \<open>
  \<open>Math.floor(Math.random() * n)\<close>, where \<open>r\<close> is the number that \<open>Math.random()\<close> returns,
  taken as a real number with \<open>0 \<le> r < 1\<close>; and \<open>randomFrom(arr)\<close>, which is \<open>arr\<close> at that
  index. Indexing an array beyond its end gives \<open>undefined\<close>.
\<close>

definition randomIndex :: "real \<Rightarrow> nat \<Rightarrow> nat" where
  "randomIndex r n = nat \<lfloor>r * real n\<rfloor>"

definition randomFrom :: "real \<Rightarrow> jsval list \<Rightarrow> jsval" where
  "randomFrom r arr = getIdx (JArr arr) (randomIndex r (length arr))"

text \<open>
  A configuration object that is returned as it is (\<open>return override\<close>) has none of the
  members \<open>generator\<close>, \<open>value\<close> and \<open>enum\<close>; as a JSON value it is the object of its
  remaining members.
\<close>

definition optMember :: "string \<Rightarrow> int option \<Rightarrow> (string \<times> jsval) list" where
  "optMember k m = (case m of None \<Rightarrow> [] | Some n \<Rightarrow> [(k, JNum n)])"

definition configObject :: "FieldOverrideConfig \<Rightarrow> jsval" where
  "configObject c = JObj (optMember ''min'' (min_o c) @ optMember ''max'' (max_o c) @ optMember ''length'' (length_o c))"

text \<open>
  \<open>SmartMocker.resolveOverride(override)\<close>: a function is called; of a configuration object
  the \<open>generator\<close> is called, else its \<open>value\<close> is returned, else an element of its \<open>enum\<close> is
  drawn; anything else is returned as it is. There is no \<open>throw\<close> in it: it can only fail
  with what a function of the caller throws.
\<close>

fun resolveOverride :: "real \<Rightarrow> FieldOverrideValue \<Rightarrow> exn + jsval" where
  "resolveOverride r (OvFunction f) = f ()"
| "resolveOverride r (OvConfig c) =
     (case generator c of
        Some g \<Rightarrow> g ()
      | None \<Rightarrow>
          (case value_o c of
             Some v \<Rightarrow> Inr v
           | None \<Rightarrow>
               (case enum_o c of
                  Some es \<Rightarrow> Inr (getIdx (JArr es) (randomIndex r (length es)))
                | None \<Rightarrow> Inr (configObject c))))"
| "resolveOverride r (OvLiteral v) = Inr v"

text \<open>
  The override branch of \<open>LocalProvider.generateForFields\<close>, for one field: function,
  \<open>generator\<close>, \<open>enum\<close> (through \<open>randomFrom\<close>), \<open>value\<close>, in this order.
\<close>

fun localOverride :: "real \<Rightarrow> FieldOverrideValue \<Rightarrow> exn + jsval" where
  "localOverride r (OvFunction f) = f ()"
| "localOverride r (OvConfig c) =
     (case generator c of
        Some g \<Rightarrow> g ()
      | None \<Rightarrow>
          (case enum_o c of
             Some es \<Rightarrow> Inr (randomFrom r es)
           | None \<Rightarrow>
               (case value_o c of
                  Some v \<Rightarrow> Inr v
                | None \<Rightarrow> Inr (configObject c))))"
| "localOverride r (OvLiteral v) = Inr v"

text \<open>\<open>{ ...this.overrides, ...options.overrides }\<close>: the second object shadows the first.\<close>

definition mergeOverrides :: "FieldOverrides \<Rightarrow> FieldOverrides \<Rightarrow> FieldOverrides" where
  "mergeOverrides a b = foldl (\<lambda>acc (k, v). AList.update k v acc) a b"

section \<open>The generation collaborator and \<open>fill\<close>\<close>

text \<open>
  The state that a call of \<open>fill\<close> can change is the cache of the mocker. Next to it the
  model keeps three logs, which the program does not have, to make its effects visible: the
  requests sent to the external generation service, the delays awaited between attempts
  (in milliseconds), and the keys looked up in the cache. \<open>'v\<close> is the type of the values
  in the cache.
\<close>

record request =
  req_fields :: "FieldInfo list"
  req_context :: "string option"
  req_overrides :: FieldOverrides

record 'v world =
  cache :: "'v cache"
  requests :: "request list"
  delays :: "nat list"
  lookups :: "string list"

text \<open>
  The external service is outside the program. One call of \<open>model.generateContent(prompt)\<close>,
  raced against the timeout and followed by \<open>text()\<close>, \<open>cleanAIResponse\<close> and
  \<open>safeJsonParse(cleaned, {})\<close>, comes to one of two things: the promise rejects (a network
  error, or \<open>Request timeout\<close>), or there is a parsed value, which is \<open>{}\<close> when the text is
  no JSON. The service is a function of the request and of the number of calls made before.
  \<open>now\<close> is \<open>Date.now()\<close>, taken as constant during one call of \<open>fill\<close>.
\<close>

datatype reply = Rejects string | Parsed jsval

record env =
  service :: "request \<Rightarrow> nat \<Rightarrow> reply"
  now :: nat

record 'v AIResponse =
  success :: bool
  data :: "'v option"
  error :: "string option"

text \<open>
  \<open>Object.entries(v)\<close>: the properties of an object, the elements of an array and the
  characters of a string by index, nothing for a number, a boolean or a function, and a
  \<open>TypeError\<close> for \<open>null\<close> and \<open>undefined\<close>. \<open>Object.keys(v)\<close> has the same cases.
\<close>

fun objectEntries :: "jsval \<Rightarrow> exn + (string \<times> jsval) list" where
  "objectEntries (JObj kvs) = Inr kvs"
| "objectEntries (JArr xs) = Inr (zip (map showNat [0..<length xs]) xs)"
| "objectEntries (JStr s) = Inr (zip (map showNat [0..<length s]) (map (\<lambda>c. JStr [c]) s))"
| "objectEntries (JNum n) = Inr []"
| "objectEntries (JBool b) = Inr []"
| "objectEntries (JNative n) = Inr []"
| "objectEntries JNull = Inl TypeError"
| "objectEntries JUndefined = Inl TypeError"

definition objectKeys :: "jsval \<Rightarrow> exn + string list" where
  "objectKeys v = bindE (objectEntries v) (\<lambda>es. Inr (map fst es))"

text \<open>
  \<open>GeminiProvider.generateForFields(fields, context, overrides)\<close>. Its whole body is inside
  \<open>try\<close>, and the \<open>catch\<close> returns \<open>{ success: false, error }\<close>: the promise it returns never
  rejects. The request carries all the fields it was given and the overrides, which the
  prompt passes on as an instruction to the service.
\<close>

definition failure :: "string \<Rightarrow> 'v AIResponse" where
  "failure msg = \<lparr>success = False, data = None, error = Some msg\<rparr>"

definition generateForFields ::
  "env \<Rightarrow> request \<Rightarrow> ('v, 'z) world_scheme \<Rightarrow> jsval AIResponse \<times> ('v, 'z) world_scheme" where
  "generateForFields e req w =
     (let w' = w\<lparr>requests := requests w @ [req]\<rparr> in
      case service e req (length (requests w)) of
        Rejects msg \<Rightarrow> (failure msg, w')
      | Parsed d \<Rightarrow>
          (case objectKeys d of
             Inl x \<Rightarrow> (failure ''Cannot convert undefined or null to object'', w')
           | Inr ks \<Rightarrow>
               if length ks = 0 then (failure ''Failed to parse AI response'', w')
               else (\<lparr>success = True, data = Some d, error = None\<rparr>, w')))"

text \<open>
  \<open>retry(fn, maxRetries, baseDelay)\<close>: the loop over \<open>attempt\<close>. A call of \<open>fn\<close> that returns
  ends the loop; one that throws is recorded in \<open>lastError\<close> and, unless it was the last
  attempt, followed by a delay of \<open>baseDelay * 2 ^ attempt\<close>. After the loop \<open>lastError\<close> is
  thrown, which is \<open>undefined\<close> when the loop made no attempt.
\<close>

function retry_from ::
  "(('v, 'z) world_scheme \<Rightarrow> (exn + 'a) \<times> ('v, 'z) world_scheme) \<Rightarrow> nat \<Rightarrow> nat \<Rightarrow> nat
   \<Rightarrow> exn option \<Rightarrow> ('v, 'z) world_scheme \<Rightarrow> (exn + 'a) \<times> ('v, 'z) world_scheme" where
  "retry_from fn maxRetries baseDelay attempt lastError w =
     (if attempt < maxRetries then
        (case fn w of
           (Inr r, w') \<Rightarrow> (Inr r, w')
         | (Inl x, w') \<Rightarrow>
             retry_from fn maxRetries baseDelay (attempt + 1) (Some x)
               (if attempt < maxRetries - 1
                then w'\<lparr>delays := delays w' @ [baseDelay * 2 ^ attempt]\<rparr>
                else w'))
      else (Inl (case lastError of Some x \<Rightarrow> x | None \<Rightarrow> ThrownUndefined), w))"
  by pat_completeness auto
termination
  by (relation "measure (\<lambda>(fn, maxRetries, baseDelay, attempt, lastError, w). maxRetries - attempt)")
     auto

declare retry_from.simps [simp del]

definition retry ::
  "(('v, 'z) world_scheme \<Rightarrow> (exn + 'a) \<times> ('v, 'z) world_scheme) \<Rightarrow> nat \<Rightarrow> nat
   \<Rightarrow> ('v, 'z) world_scheme \<Rightarrow> (exn + 'a) \<times> ('v, 'z) world_scheme" where
  "retry fn maxRetries baseDelay w = retry_from fn maxRetries baseDelay 0 None w"

text \<open>
  The mocker: \<open>config.ai.maxRetries\<close>, the configuration of its cache and \<open>this.overrides\<close>
  (the field \<open>mocker_overrides\<close>). The constructor throws unless a provider with an API key
  is configured, so \<open>this.geminiProvider\<close> is always there. The options of \<open>fill\<close> that it
  reads are the three filters, the context and the overrides.
\<close>

record SmartMockerConfig =
  maxRetries :: "nat option"
  cacheConfig :: CacheConfig
  mocker_overrides :: FieldOverrides

record FillOptions =
  nullOnly :: bool
  undefinedOnly :: bool
  emptyStringsOnly :: bool
  context_o :: "string option"
  overrides :: FieldOverrides

text \<open>
  \<open>() => this.geminiProvider!.generateForFields(fields, context, overrides)\<close>, the function
  that \<open>generateWithAI\<close> hands to \<open>retry\<close>: it returns what the provider returns and never
  throws.
\<close>

definition callProvider ::
  "env \<Rightarrow> request \<Rightarrow> jsval world \<Rightarrow> (exn + jsval AIResponse) \<times> jsval world" where
  "callProvider e req w = (case generateForFields e req w of (res, w') \<Rightarrow> (Inr res, w'))"

text \<open>
  \<open>generateWithAI(fields, context, overrides)\<close>: the cache first; on a miss the provider,
  inside \<open>retry\<close>; a successful result is stored in the cache, anything else is an error.
\<close>

definition generateWithAI ::
  "SmartMockerConfig \<Rightarrow> env \<Rightarrow> FieldInfo list \<Rightarrow> string option \<Rightarrow> FieldOverrides
   \<Rightarrow> jsval world \<Rightarrow> (exn + jsval AIResponse) \<times> jsval world" where
  "generateWithAI cfg e flds ctx ovs w =
     (let cacheKey = generateKey (cacheConfig cfg) flds;
          (cachedValue, c) = cacheGet (cacheConfig cfg) (now e) (cache w) cacheKey;
          w1 = w\<lparr>cache := c, lookups := lookups w @ [cacheKey]\<rparr>
      in if (case cachedValue of Some v \<Rightarrow> \<not> falsy v | None \<Rightarrow> False)
         then (Inr \<lparr>success = True, data = cachedValue, error = None\<rparr>, w1)
         else
           (case retry
                   (callProvider e \<lparr>req_fields = flds, req_context = ctx, req_overrides = ovs\<rparr>)
                   (case maxRetries cfg of Some n \<Rightarrow> n | None \<Rightarrow> 3) 1000 w1 of
              (Inl x, w2) \<Rightarrow> (Inl x, w2)
            | (Inr result, w2) \<Rightarrow>
                (case data result of
                   Some d \<Rightarrow>
                     if success result \<and> \<not> falsy d
                     then (Inr result,
                           w2\<lparr>cache := cacheSet (cacheConfig cfg) (now e) (cache w2) cacheKey d\<rparr>)
                     else (Inl (Error ''Failed to generate data with AI provider''), w2)
                 | None \<Rightarrow> (Inl (Error ''Failed to generate data with AI provider''), w2))))"

text \<open>The three filters of \<open>fill\<close>, each applied when its option is set.\<close>

definition filterFields :: "FillOptions \<Rightarrow> FieldInfo list \<Rightarrow> FieldInfo list" where
  "filterFields options flds =
     (let f1 = (if nullOnly options then filter isNull flds else flds);
          f2 = (if undefinedOnly options then filter isUndefined f1 else f1)
      in if emptyStringsOnly options then filter (\<lambda>f. value_f f = JStr []) f2 else f2)"

text \<open>
  \<open>for (const [path, value] of Object.entries(aiResult.data)) setNestedValue(cloned, path,
  value)\<close>.
\<close>

fun mergeEntries :: "jsval \<Rightarrow> (string \<times> jsval) list \<Rightarrow> exn + jsval" where
  "mergeEntries cloned [] = Inr cloned"
| "mergeEntries cloned ((pth, v) # es) =
     bindE (setNestedValue cloned pth v) (\<lambda>c. mergeEntries c es)"

text \<open>
  \<open>fill(obj, options)\<close>. The result is the filled record or the exception with which the
  promise rejects, together with the world after the call.
\<close>

definition fill ::
  "SmartMockerConfig \<Rightarrow> env \<Rightarrow> jsval \<Rightarrow> FillOptions \<Rightarrow> jsval world
   \<Rightarrow> (exn + jsval) \<times> jsval world" where
  "fill cfg e obj options w =
     (case deepClone obj of
        Inl x \<Rightarrow> (Inl x, w)
      | Inr cloned \<Rightarrow>
          (let mergedOverrides = mergeOverrides (mocker_overrides cfg) (overrides options);
               flds = filterFields options (extractEmptyFields cloned [] None)
           in if length flds = 0 then (Inr cloned, w)
              else
                (case generateWithAI cfg e flds (context_o options) mergedOverrides w of
                   (Inl x, w') \<Rightarrow> (Inl x, w')
                 | (Inr aiResult, w') \<Rightarrow>
                     (case data aiResult of
                        Some d \<Rightarrow>
                          if success aiResult \<and> \<not> falsy d
                          then (bindE (objectEntries d) (mergeEntries cloned), w')
                          else (Inr cloned, w')
                      | None \<Rightarrow> (Inr cloned, w')))))"

section \<open>Starting points and inputs without a missing field\<close>

text \<open>
  The configuration that the constructor of the cache manager builds when it is given
  \<open>{ enabled: true }\<close>, a mocker that has not been used yet (an empty cache; the logs are
  empty), and \<open>fill\<close> called without options.
\<close>

definition defaultCacheConfig :: CacheConfig where
  "defaultCacheConfig = \<lparr>enabled = True, persist = False, ttl = 86400, prefix_c = ''sjm_''\<rparr>"

definition emptyWorld :: "'v world" where
  "emptyWorld = \<lparr>cache = [], requests = [], delays = [], lookups = []\<rparr>"

definition noOptions :: FillOptions where
  "noOptions = \<lparr>nullOnly = False, undefinedOnly = False, emptyStringsOnly = False,
                 context_o = None, overrides = []\<rparr>"




section \<open>The store: objects with identity\<close>

text \<open>
  In JavaScript an object or array is a mutable cell and a value only refers to it: two
  positions can hold the same object, and a write through one is seen through the other.
  A store value is a primitive value, a value of the runtime (as \<open>JNative\<close>) or a reference;
  a cell is the list of the own properties of an object or the element list of an array;
  the store is the list of all cells allocated so far, and a reference is an index into it.
  Nothing is ever freed.
\<close>

type_synonym addr = nat

datatype hval =
    HUndefined
  | HNull
  | HBool bool
  | HNum int
  | HStr string
  | HRef addr
  | HNative string

datatype cell =
    ObjCell "(string \<times> hval) list"
  | ArrCell "hval list"

type_synonym heap = "cell list"

definition cellAt :: "heap \<Rightarrow> addr \<Rightarrow> cell option" where
  "cellAt h a = (if a < length h then Some (h ! a) else None)"

definition alloc :: "cell \<Rightarrow> heap \<Rightarrow> addr \<times> heap" where
  "alloc c h = (length h, h @ [c])"

text \<open>\<open>!v\<close> on store values: every object and array is truthy.\<close>

fun falsy_h :: "hval \<Rightarrow> bool" where
  "falsy_h HUndefined = True"
| "falsy_h HNull = True"
| "falsy_h (HBool b) = (\<not> b)"
| "falsy_h (HNum n) = (n = 0)"
| "falsy_h (HStr s) = (s = [])"
| "falsy_h (HRef a) = False"
| "falsy_h (HNative n) = False"

text \<open>
  The tree that a store value unfolds to, which is what a deep comparison of two values
  looks at. The unfolding of a cyclic structure does not end; \<open>n\<close> bounds the depth, and
  \<open>None\<close> says that the bound was reached (or that a reference points nowhere).
\<close>

fun unfold_h :: "nat \<Rightarrow> heap \<Rightarrow> hval \<Rightarrow> jsval option" where
  "unfold_h n h HUndefined = Some JUndefined"
| "unfold_h n h HNull = Some JNull"
| "unfold_h n h (HBool b) = Some (JBool b)"
| "unfold_h n h (HNum i) = Some (JNum i)"
| "unfold_h n h (HStr s) = Some (JStr s)"
| "unfold_h n h (HNative m) = Some (JNative m)"
| "unfold_h 0 h (HRef a) = None"
| "unfold_h (Suc n) h (HRef a) =
     (case cellAt h a of
        None \<Rightarrow> None
      | Some (ArrCell xs) \<Rightarrow> map_option JArr (those (map (unfold_h n h) xs))
      | Some (ObjCell kvs) \<Rightarrow>
          map_option (\<lambda>vs. JObj (zip (map fst kvs) vs))
            (those (map (\<lambda>kv. unfold_h n h (snd kv)) kvs)))"

text \<open>
  A structure without a cycle is no deeper than the number of cells of the store, so with
  that bound \<open>None\<close> stands for a cyclic structure.
\<close>

definition treeOf :: "heap \<Rightarrow> hval \<Rightarrow> jsval option" where
  "treeOf h v = unfold_h (Suc (length h)) h v"

text \<open>
  A tree of JSON data as new cells of the store: what \<open>JSON.parse\<close> returns, and what an
  object literal of the caller creates. \<open>seqStore\<close> runs allocations one after the other.
\<close>

fun seqStore :: "(heap \<Rightarrow> 'a \<times> heap) list \<Rightarrow> heap \<Rightarrow> 'a list \<times> heap" where
  "seqStore [] h = ([], h)"
| "seqStore (f # fs) h =
     (case f h of (x, h1) \<Rightarrow> (case seqStore fs h1 of (xs, h2) \<Rightarrow> (x # xs, h2)))"

fun build :: "jsval \<Rightarrow> heap \<Rightarrow> hval \<times> heap" where
  "build JUndefined h = (HUndefined, h)"
| "build JNull h = (HNull, h)"
| "build (JBool b) h = (HBool b, h)"
| "build (JNum n) h = (HNum n, h)"
| "build (JStr s) h = (HStr s, h)"
| "build (JNative n) h = (HNative n, h)"
| "build (JArr xs) h =
     (case seqStore (map build xs) h of
        (ys, h1) \<Rightarrow> (case alloc (ArrCell ys) h1 of (a, h2) \<Rightarrow> (HRef a, h2)))"
| "build (JObj kvs) h =
     (case seqStore (map (\<lambda>kv. build (snd kv)) kvs) h of
        (ys, h1) \<Rightarrow>
          (case alloc (ObjCell (zip (map fst kvs) ys)) h1 of (a, h2) \<Rightarrow> (HRef a, h2)))"

text \<open>
  \<open>deepClone\<close> on the store: a primitive value and a function are returned as they are; of
  an array or object every element or property value is cloned and a new cell is made of
  the clones. As in \<open>cloneProps\<close>, the assignment \<open>cloned[key] = ...\<close> creates no property for
  the key \<open>__proto__\<close> (\<open>ownProps\<close>), and where it would replace the prototype of the clone
  the result is \<open>Unmodelled\<close>. On a cyclic structure the recursion of the source never ends
  and the call stack overflows: the depth is bounded by \<open>n\<close>, and reaching the bound is the
  \<open>RangeError\<close>. A structure without a cycle is no deeper than the number of cells of the
  store, which is the bound that \<open>deepClone_h\<close> takes.
\<close>

fun replacesPrototype_h :: "hval \<Rightarrow> bool" where
  "replacesPrototype_h HNull = True"
| "replacesPrototype_h (HRef a) = True"
| "replacesPrototype_h (HNative n) = True"
| "replacesPrototype_h v = False"

fun ownProps :: "(string \<times> hval) list \<Rightarrow> exn + (string \<times> hval) list" where
  "ownProps [] = Inr []"
| "ownProps ((k, y) # kvs) =
     (if k = ''__proto__''
      then (if replacesPrototype_h y then Inl Unmodelled else ownProps kvs)
      else bindE (ownProps kvs) (\<lambda>r. Inr ((k, y) # r)))"

fun cloneValue :: "nat \<Rightarrow> hval \<Rightarrow> heap \<Rightarrow> exn + hval \<times> heap"
  and cloneAll :: "nat \<Rightarrow> hval list \<Rightarrow> heap \<Rightarrow> exn + hval list \<times> heap"
where
  "cloneValue 0 (HRef a) h = Inl RangeError"
| "cloneValue (Suc n) (HRef a) h =
     (case cellAt h a of
        None \<Rightarrow> Inl Unmodelled
      | Some (ArrCell xs) \<Rightarrow>
          bindE (cloneAll n xs h) (\<lambda>(ys, h1).
            case alloc (ArrCell ys) h1 of (b, h2) \<Rightarrow> Inr (HRef b, h2))
      | Some (ObjCell kvs) \<Rightarrow>
          bindE (cloneAll n (map snd kvs) h) (\<lambda>(ys, h1).
          bindE (ownProps (zip (map fst kvs) ys)) (\<lambda>ps.
            case alloc (ObjCell ps) h1 of (b, h2) \<Rightarrow> Inr (HRef b, h2))))"
| "cloneValue n v h = Inr (v, h)"
| "cloneAll n [] h = Inr ([], h)"
| "cloneAll n (x # xs) h =
     bindE (cloneValue n x h) (\<lambda>(y, h1).
     bindE (cloneAll n xs h1) (\<lambda>(ys, h2). Inr (y # ys, h2)))"

definition deepClone_h :: "hval \<Rightarrow> heap \<Rightarrow> exn + hval \<times> heap" where
  "deepClone_h v h = cloneValue (Suc (length h)) v h"

text \<open>
  Reading and writing one property, as \<open>getProp\<close>, \<open>getIdx\<close>, \<open>setProp\<close> and \<open>setIdx\<close> do on
  trees, with the same treatment of the members that are inherited from a prototype and
  of the key \<open>__proto__\<close>; a write changes the cell that the reference points to.
\<close>

definition setAt_h :: "hval list \<Rightarrow> nat \<Rightarrow> hval \<Rightarrow> hval list" where
  "setAt_h xs i v =
     (if i < length xs then xs[i := v]
      else xs @ replicate (i - length xs) HUndefined @ [v])"

definition inherited_h :: "string list \<Rightarrow> string \<Rightarrow> hval" where
  "inherited_h names k = (if k \<in> set names then HNative k else HUndefined)"

fun getProp_h :: "heap \<Rightarrow> hval \<Rightarrow> string \<Rightarrow> hval" where
  "getProp_h h (HRef a) k =
     (case cellAt h a of
        Some (ObjCell kvs) \<Rightarrow>
          (case map_of kvs k of Some v \<Rightarrow> v | None \<Rightarrow> inherited_h protoNames k)
      | Some (ArrCell xs) \<Rightarrow>
          (case arrayIndex k of
             Some i \<Rightarrow> if i < length xs then xs ! i else HUndefined
           | None \<Rightarrow>
               if k = ''length'' then HNum (int (length xs))
               else inherited_h (protoNames @ arrayProtoNames) k)
      | None \<Rightarrow> HUndefined)"
| "getProp_h h (HStr s) k =
     (case arrayIndex k of
        Some i \<Rightarrow> if i < length s then HStr [s ! i] else HUndefined
      | None \<Rightarrow>
          if k = ''length'' then HNum (int (length s))
          else inherited_h (protoNames @ stringProtoNames) k)"
| "getProp_h h (HNum n) k = inherited_h (protoNames @ numberProtoNames) k"
| "getProp_h h (HBool b) k = inherited_h protoNames k"
| "getProp_h h (HNative n) k = HNative (n @ ''.'' @ k)"
| "getProp_h h HNull k = HUndefined"
| "getProp_h h HUndefined k = HUndefined"

fun getIdx_h :: "heap \<Rightarrow> hval \<Rightarrow> nat \<Rightarrow> hval" where
  "getIdx_h h (HRef a) i =
     (case cellAt h a of
        Some (ArrCell xs) \<Rightarrow> if i < length xs then xs ! i else HUndefined
      | Some (ObjCell kvs) \<Rightarrow> (case map_of kvs (showNat i) of Some v \<Rightarrow> v | None \<Rightarrow> HUndefined)
      | None \<Rightarrow> HUndefined)"
| "getIdx_h h (HStr s) i = (if i < length s then HStr [s ! i] else HUndefined)"
| "getIdx_h h (HNative n) i = HNative (n @ ''.'' @ showNat i)"
| "getIdx_h h v i = HUndefined"

fun setProp_h :: "heap \<Rightarrow> hval \<Rightarrow> string \<Rightarrow> hval \<Rightarrow> exn + heap" where
  "setProp_h h (HRef a) k v =
     (case cellAt h a of
        Some (ObjCell kvs) \<Rightarrow>
          if k = ''__proto__'' \<and> map_of kvs k = None
          then (if replacesPrototype_h v then Inl Unmodelled else Inr h)
          else Inr (h[a := ObjCell (AList.update k v kvs)])
      | Some (ArrCell xs) \<Rightarrow>
          (case arrayIndex k of
             Some i \<Rightarrow> Inr (h[a := ArrCell (setAt_h xs i v)])
           | None \<Rightarrow> Inl Unmodelled)
      | None \<Rightarrow> Inl Unmodelled)"
| "setProp_h h (HNative n) k v = Inl Unmodelled"
| "setProp_h h HNull k v = Inl TypeError"
| "setProp_h h HUndefined k v = Inl TypeError"
| "setProp_h h c k v = (if k = ''__proto__'' then Inr h else Inl TypeError)"

fun setIdx_h :: "heap \<Rightarrow> hval \<Rightarrow> nat \<Rightarrow> hval \<Rightarrow> exn + heap" where
  "setIdx_h h (HRef a) i v =
     (case cellAt h a of
        Some (ArrCell xs) \<Rightarrow> Inr (h[a := ArrCell (setAt_h xs i v)])
      | Some (ObjCell kvs) \<Rightarrow> Inr (h[a := ObjCell (AList.update (showNat i) v kvs)])
      | None \<Rightarrow> Inl Unmodelled)"
| "setIdx_h h (HNative n) i v = Inl Unmodelled"
| "setIdx_h h c i v = Inl TypeError"

text \<open>
  A sequence of writes that may throw in the middle: the result is the exception, if any,
  and the store that has been reached. \<open>attempt\<close> is one write, \<open>andThen\<close> goes on after a
  step that did not throw.
\<close>

definition attempt :: "exn + heap \<Rightarrow> heap \<Rightarrow> exn option \<times> heap" where
  "attempt r h = (case r of Inl x \<Rightarrow> (Some x, h) | Inr h1 \<Rightarrow> (None, h1))"

definition andThen ::
  "exn option \<times> heap \<Rightarrow> (heap \<Rightarrow> exn option \<times> heap) \<Rightarrow> exn option \<times> heap" where
  "andThen r f = (case r of (Some x, h) \<Rightarrow> (Some x, h) | (None, h) \<Rightarrow> f h)"

text \<open>
  \<open>if (!current[k]) current[k] = {}\<close> (or \<open>[]\<close>): the literal is a new cell.
\<close>

definition ensureProp_h :: "heap \<Rightarrow> hval \<Rightarrow> string \<Rightarrow> cell \<Rightarrow> exn option \<times> heap" where
  "ensureProp_h h cur k fresh =
     (if falsy_h (getProp_h h cur k)
      then (case alloc fresh h of (a, h1) \<Rightarrow> attempt (setProp_h h1 cur k (HRef a)) h1)
      else (None, h))"

definition ensureIdx_h :: "heap \<Rightarrow> hval \<Rightarrow> nat \<Rightarrow> cell \<Rightarrow> exn option \<times> heap" where
  "ensureIdx_h h arr i fresh =
     (if falsy_h (getIdx_h h arr i)
      then (case alloc fresh h of (a, h1) \<Rightarrow> attempt (setIdx_h h1 arr i (HRef a)) h1)
      else (None, h))"

text \<open>
  \<open>setNestedValue\<close> on the store, with the pointer \<open>current\<close> of the source: \<open>setParts_h h
  cur parts v\<close> is the rest of the walk from \<open>current = cur\<close> in the store \<open>h\<close>.
\<close>

fun setParts_h :: "heap \<Rightarrow> hval \<Rightarrow> string list \<Rightarrow> hval \<Rightarrow> exn option \<times> heap" where
  "setParts_h h cur [] v = (None, h)"
| "setParts_h h cur [lastPart] v =
     (case arrayMatch lastPart of
        Some (arrayKey, index) \<Rightarrow>
          andThen (ensureProp_h h cur arrayKey (ArrCell [])) (\<lambda>h1.
          attempt (setIdx_h h1 (getProp_h h1 cur arrayKey) index v) h1)
      | None \<Rightarrow> attempt (setProp_h h cur lastPart v) h)"
| "setParts_h h cur (part # rest) v =
     (case arrayMatch part of
        Some (arrayKey, index) \<Rightarrow>
          andThen (ensureProp_h h cur arrayKey (ArrCell [])) (\<lambda>h1.
          andThen (ensureIdx_h h1 (getProp_h h1 cur arrayKey) index (ObjCell [])) (\<lambda>h2.
          setParts_h h2 (getIdx_h h2 (getProp_h h2 cur arrayKey) index) rest v))
      | None \<Rightarrow>
          andThen (ensureProp_h h cur part (ObjCell [])) (\<lambda>h1.
          setParts_h h1 (getProp_h h1 cur part) rest v))"

definition setNestedValue_h :: "heap \<Rightarrow> hval \<Rightarrow> string \<Rightarrow> hval \<Rightarrow> exn option \<times> heap" where
  "setNestedValue_h h obj pth v = setParts_h h obj (splitDot pth) v"

text \<open>\<open>Object.entries\<close> of a store value.\<close>

fun objectEntries_h :: "heap \<Rightarrow> hval \<Rightarrow> exn + (string \<times> hval) list" where
  "objectEntries_h h (HRef a) =
     (case cellAt h a of
        Some (ObjCell kvs) \<Rightarrow> Inr kvs
      | Some (ArrCell xs) \<Rightarrow> Inr (zip (map showNat [0..<length xs]) xs)
      | None \<Rightarrow> Inl Unmodelled)"
| "objectEntries_h h (HStr s) = Inr (zip (map showNat [0..<length s]) (map (\<lambda>c. HStr [c]) s))"
| "objectEntries_h h (HNum n) = Inr []"
| "objectEntries_h h (HBool b) = Inr []"
| "objectEntries_h h (HNative n) = Inr []"
| "objectEntries_h h HNull = Inl TypeError"
| "objectEntries_h h HUndefined = Inl TypeError"

subsection \<open>\<open>fill\<close> on the store\<close>

text \<open>
  The mocker on the store. Its world is the world of before, with references as the values
  of the cache, and the store. Extraction only reads the record, and it reads the copy that
  \<open>deepClone\<close> has just made, which is a tree: it is run on the unfolding of the copy.
\<close>

record hworld = "hval world" +
  store :: heap

definition extractEmptyFields_h :: "heap \<Rightarrow> hval \<Rightarrow> FieldInfo list" where
  "extractEmptyFields_h h v =
     (case treeOf h v of
        Some t \<Rightarrow> extractEmptyFields t [] None
      | None \<Rightarrow> [])"

text \<open>
  The provider: as \<open>generateForFields\<close>, and the data that \<open>safeJsonParse\<close> returns are new
  cells of the store.
\<close>

definition generateForFields_h :: "env \<Rightarrow> request \<Rightarrow> hworld \<Rightarrow> hval AIResponse \<times> hworld" where
  "generateForFields_h e req w =
     (case generateForFields e req w of
        (res, w1) \<Rightarrow>
          (case data res of
             None \<Rightarrow> (\<lparr>success = success res, data = None, error = error res\<rparr>, w1)
           | Some d \<Rightarrow>
               (case build d (store w1) of
                  (r, h) \<Rightarrow> (\<lparr>success = success res, data = Some r, error = error res\<rparr>,
                             w1\<lparr>store := h\<rparr>))))"

definition callProvider_h ::
  "env \<Rightarrow> request \<Rightarrow> hworld \<Rightarrow> (exn + hval AIResponse) \<times> hworld" where
  "callProvider_h e req w = (case generateForFields_h e req w of (res, w') \<Rightarrow> (Inr res, w'))"

text \<open>
  \<open>generateWithAI\<close>: what the cache keeps, and what a hit returns, is the reference to the
  data of the provider, not a copy of them.
\<close>

definition generateWithAI_h ::
  "SmartMockerConfig \<Rightarrow> env \<Rightarrow> FieldInfo list \<Rightarrow> string option \<Rightarrow> FieldOverrides
   \<Rightarrow> hworld \<Rightarrow> (exn + hval AIResponse) \<times> hworld" where
  "generateWithAI_h cfg e flds ctx ovs w =
     (let cacheKey = generateKey (cacheConfig cfg) flds;
          (cachedValue, c) = cacheGet (cacheConfig cfg) (now e) (cache w) cacheKey;
          w1 = w\<lparr>cache := c, lookups := lookups w @ [cacheKey]\<rparr>
      in if (case cachedValue of Some v \<Rightarrow> \<not> falsy_h v | None \<Rightarrow> False)
         then (Inr \<lparr>success = True, data = cachedValue, error = None\<rparr>, w1)
         else
           (case retry
                   (callProvider_h e \<lparr>req_fields = flds, req_context = ctx, req_overrides = ovs\<rparr>)
                   (case maxRetries cfg of Some n \<Rightarrow> n | None \<Rightarrow> 3) 1000 w1 of
              (Inl x, w2) \<Rightarrow> (Inl x, w2)
            | (Inr result, w2) \<Rightarrow>
                (case data result of
                   Some d \<Rightarrow>
                     if success result \<and> \<not> falsy_h d
                     then (Inr result,
                           w2\<lparr>cache := cacheSet (cacheConfig cfg) (now e) (cache w2) cacheKey d\<rparr>)
                     else (Inl (Error ''Failed to generate data with AI provider''), w2)
                 | None \<Rightarrow> (Inl (Error ''Failed to generate data with AI provider''), w2))))"

text \<open>The loop of \<open>fill\<close> over the entries of the data, writing into the copy.\<close>

fun mergeEntries_h :: "hval \<Rightarrow> (string \<times> hval) list \<Rightarrow> heap \<Rightarrow> exn option \<times> heap" where
  "mergeEntries_h cloned [] h = (None, h)"
| "mergeEntries_h cloned ((pth, v) # es) h =
     andThen (setNestedValue_h h cloned pth v) (mergeEntries_h cloned es)"

text \<open>
  \<open>fill(obj, options)\<close> on the store: \<open>obj\<close> is a value of the store, and so is the result.
  (The cells that \<open>deepClone\<close> allocates before a stack overflow cannot be reached from
  anywhere; the store is then left as it was.)
\<close>

definition fill_h ::
  "SmartMockerConfig \<Rightarrow> env \<Rightarrow> hval \<Rightarrow> FillOptions \<Rightarrow> hworld \<Rightarrow> (exn + hval) \<times> hworld" where
  "fill_h cfg e obj options w =
     (case deepClone_h obj (store w) of
        Inl x \<Rightarrow> (Inl x, w)
      | Inr (cloned, h0) \<Rightarrow>
          (let w0 = w\<lparr>store := h0\<rparr>;
               mergedOverrides = mergeOverrides (mocker_overrides cfg) (overrides options);
               flds = filterFields options (extractEmptyFields_h h0 cloned)
           in if length flds = 0 then (Inr cloned, w0)
              else
                (case generateWithAI_h cfg e flds (context_o options) mergedOverrides w0 of
                   (Inl x, w') \<Rightarrow> (Inl x, w')
                 | (Inr aiResult, w') \<Rightarrow>
                     (case data aiResult of
                        Some d \<Rightarrow>
                          if success aiResult \<and> \<not> falsy_h d
                          then (case objectEntries_h (store w') d of
                                  Inl x \<Rightarrow> (Inl x, w')
                                | Inr es \<Rightarrow>
                                    (case mergeEntries_h cloned es (store w') of
                                       (Some x, h) \<Rightarrow> (Inl x, w'\<lparr>store := h\<rparr>)
                                     | (None, h) \<Rightarrow> (Inr cloned, w'\<lparr>store := h\<rparr>)))
                          else (Inr cloned, w')
                      | None \<Rightarrow> (Inr cloned, w')))))"

section \<open>Properties of the pattern registry\<close>

lemma startsWith_prefix: "startsWith s t \<longleftrightarrow> prefix t s"
  by (induction s t rule: startsWith.induct) auto

lemma includes_str_sublist: "includes_str s t \<longleftrightarrow> sublist t s"
  by (induction s) (auto simp: startsWith_prefix sublist_Cons_right)

lemma endsWith_suffix: "endsWith s t \<longleftrightarrow> suffix t s"
  by (simp add: endsWith_def startsWith_prefix suffix_to_prefix)

lemma toLowerChar_idem: "toLowerChar (toLowerChar c) = toLowerChar c"
  by (cases c) (simp add: toLowerChar_def less_eq_char_def)

lemma toLowerCase_idem: "toLowerCase (toLowerCase s) = toLowerCase s"
  by (simp add: toLowerCase_def toLowerChar_idem)

lemma name_createMatcher: "name (createMatcher n m g p) = n"
  and priority_createMatcher: "priority (createMatcher n m g p) = p"
  and match_createMatcher: "match (createMatcher n m g p) k = m (toLowerCase k)"
  by (simp_all add: createMatcher_def)

subsection \<open>Searching a stably sorted list\<close>

lemma find_insort_key:
  "sorted (map f ys) \<Longrightarrow>
   find P (insort_key f x ys) =
     (if P x \<and> (\<forall>y\<in>set ys. P y \<longrightarrow> f x \<le> f y) then Some x else find P ys)"
proof (induction ys)
  case Nil
  then show ?case by simp
next
  case (Cons y ys)
  then show ?case by fastforce
qed

lemma find_sort_key:
  "find P (sort_key f xs) = find (\<lambda>x. P x \<and> (\<forall>y\<in>set xs. P y \<longrightarrow> f x \<le> f y)) xs"
proof (induction xs)
  case Nil
  then show ?case by simp
next
  case (Cons x xs)
  have step: "find P (sort_key f (x # xs)) =
        (if P x \<and> (\<forall>y\<in>set xs. P y \<longrightarrow> f x \<le> f y) then Some x else find P (sort_key f xs))"
    by (simp add: find_insort_key)
  have rest: "\<not> (P x \<and> (\<forall>y\<in>set xs. P y \<longrightarrow> f x \<le> f y)) \<Longrightarrow>
     find (\<lambda>z. P z \<and> (\<forall>y\<in>set xs. P y \<longrightarrow> f z \<le> f y)) xs
     = find (\<lambda>z. P z \<and> (\<forall>y\<in>set (x # xs). P y \<longrightarrow> f z \<le> f y)) xs"
    by (rule find_cong) (auto intro: order_trans)
  from step rest Cons.IH show ?case by auto
qed

lemma find_unique:
  assumes "m \<in> set xs" "Q m" "\<forall>q\<in>set xs. Q q \<longrightarrow> q = m"
  shows "find Q xs = Some m"
proof -
  from assms(1,2) obtain x where x: "find Q xs = Some x"
    by (cases "find Q xs") (auto simp: find_None_iff)
  then have "x \<in> set xs" "Q x"
    by (auto simp: find_Some_iff)
  with assms(3) have "x = m" by blast
  with x show ?thesis by simp
qed

lemma filter_at_most_one:
  assumes len: "length (filter P xs) \<le> 1" and mem: "a \<in> set xs" "b \<in> set xs" "P a" "P b"
  shows "a = b"
proof -
  from mem have ab: "a \<in> set (filter P xs)" "b \<in> set (filter P xs)" by simp_all
  from len have "filter P xs = [] \<or> (\<exists>c. filter P xs = [c])"
    by (cases "filter P xs") (auto simp: length_Suc_conv)
  with ab show "a = b" by (metis empty_iff empty_set set_ConsD)
qed

lemma findIn_sortByPriority:
  "findIn (sortByPriority ps) k =
   find (\<lambda>q. match q k \<and> (\<forall>r\<in>set ps. match r k \<longrightarrow> priority r \<le> priority q)) ps"
  by (simp add: findIn_def sortByPriority_def find_sort_key)

lemma set_sortByPriority: "set (sortByPriority ps) = set ps"
  by (simp add: sortByPriority_def)

lemma sortByPriority_descending:
  "sorted_wrt (\<lambda>a b. priority b \<le> priority a) (sortByPriority ps)"
proof -
  have "sorted (map (\<lambda>p. - priority p) (sortByPriority ps))"
    by (simp add: sortByPriority_def)
  then show ?thesis
    by (simp add: sorted_map sorted_wrt_iff_nth_less)
qed

lemma sortByPriority_stable:
  "filter (\<lambda>p. priority p = n) (sortByPriority ps) = filter (\<lambda>p. priority p = n) ps"
proof -
  have "filter (\<lambda>p. - priority p = - n) (sort_key (\<lambda>p. - priority p) ps)
        = filter (\<lambda>p. - priority p = - n) ps"
    by (rule sort_key_stable)
  then show ?thesis by (simp add: sortByPriority_def)
qed

subsection \<open>The built-in registry\<close>

lemma match_lower:
  "q \<in> set declaredPatterns \<Longrightarrow> match q (toLowerCase k) = match q k"
  unfolding declaredPatterns_def
  apply (simp only: set_simps insert_iff empty_iff)
  apply (elim disjE)
  apply (simp_all only: match_createMatcher toLowerCase_idem)
  done

lemma exact_tier_keys:
  "q \<in> set declaredPatterns \<Longrightarrow> 90 \<le> priority q \<Longrightarrow> match q k \<Longrightarrow>
   toLowerCase k \<in> set exactKeys"
  unfolding declaredPatterns_def
  apply (simp only: set_simps insert_iff empty_iff)
  apply (elim disjE)
  apply (simp_all only: priority_createMatcher match_createMatcher)
  apply (simp_all add: exactKeys_def)
  apply blast+
  done

lemma exact_tier_disjoint:
  "list_all (\<lambda>l. length (filter (\<lambda>q. 90 \<le> priority q \<and> match q l) declaredPatterns) \<le> 1)
     exactKeys"
  by code_simp

lemma exact_tier_unique:
  assumes a: "a \<in> set declaredPatterns" "90 \<le> priority a" "match a k"
    and b: "b \<in> set declaredPatterns" "90 \<le> priority b" "match b k"
  shows "a = b"
proof -
  let ?l = "toLowerCase k"
  let ?P = "\<lambda>q. 90 \<le> priority q \<and> match q ?l"
  have "?l \<in> set exactKeys" using a by (rule exact_tier_keys)
  with exact_tier_disjoint have len: "length (filter ?P declaredPatterns) \<le> 1"
    by (simp add: list_all_iff)
  have Pa: "?P a" and Pb: "?P b"
    using a b by (simp_all add: match_lower)
  from len a(1) b(1) Pa Pb show ?thesis by (rule filter_at_most_one)
qed

lemma builtIn_exact_wins:
  assumes m: "m \<in> set declaredPatterns" "90 \<le> priority m" "match m k"
  shows "findPattern k pth = Some m"
proof -
  let ?Q = "\<lambda>q. match q k \<and> (\<forall>r\<in>set declaredPatterns. match r k \<longrightarrow> priority r \<le> priority q)"
  have top: "\<forall>r\<in>set declaredPatterns. match r k \<longrightarrow> priority r \<le> priority m"
  proof (intro ballI impI)
    fix r assume r: "r \<in> set declaredPatterns" "match r k"
    show "priority r \<le> priority m"
    proof (cases "90 \<le> priority r")
      case True
      with r m have "r = m" by (intro exact_tier_unique)
      then show ?thesis by simp
    next
      case False
      with m(2) show ?thesis by simp
    qed
  qed
  have uniq: "\<forall>q\<in>set declaredPatterns. ?Q q \<longrightarrow> q = m"
  proof (intro ballI impI)
    fix q assume q: "q \<in> set declaredPatterns" "?Q q"
    with m have "priority m \<le> priority q" by blast
    with m(2) have "90 \<le> priority q" by simp
    with q m show "q = m" by (intro exact_tier_unique) simp_all
  qed
  have "find ?Q declaredPatterns = Some m"
    using m(1) _ uniq by (rule find_unique) (use m(3) top in blast)
  then show ?thesis
    by (simp add: findPattern_def builtInPatterns_def findIn_sortByPriority)
qed

text \<open>
  Claim C5. \<open>findPattern\<close> lower-cases the key (every matcher made by \<open>createMatcher\<close> tests
  the lower-cased key, so a key and its lower-cased form are matched alike) and returns the first
  matcher of the sorted registry that accepts it. The sorted registry is in descending priority
  and keeps the declaration order within one priority, so the matcher returned is the first
  declared one among the accepting matchers of highest priority, and nothing is returned when no
  matcher accepts. Consequently, when a matcher of priority 90 and a matcher of priority 60 of
  the built-in registry both accept a key, the one of priority 90 is returned; the same holds
  for a registry made of two such matchers, whatever the order of their declaration.
\<close>

theorem findPattern_first_by_priority:
  "match (createMatcher nm m g p) k = m (toLowerCase k)
   \<and> findIn (sortByPriority ps) k =
       find (\<lambda>q. match q k \<and> (\<forall>r\<in>set ps. match r k \<longrightarrow> priority r \<le> priority q)) ps
   \<and> sorted_wrt (\<lambda>a b. priority b \<le> priority a) (sortByPriority ps)
   \<and> filter (\<lambda>q. priority q = n) (sortByPriority ps) = filter (\<lambda>q. priority q = n) ps
   \<and> findPattern k pth = findIn (sortByPriority declaredPatterns) k
   \<and> (\<forall>q\<in>set declaredPatterns. match q k = match q (toLowerCase k))
   \<and> (M1 \<in> set builtInPatterns \<and> M2 \<in> set builtInPatterns \<and> priority M1 = 90 \<and> priority M2 = 60
        \<and> match M1 k \<and> match M2 k \<longrightarrow> findPattern k pth = Some M1)
   \<and> (priority N1 = 90 \<and> priority N2 = 60 \<and> match N1 k \<and> match N2 k \<longrightarrow>
        findIn (sortByPriority [N1, N2]) k = Some N1 \<and> findIn (sortByPriority [N2, N1]) k = Some N1)"
proof (intro conjI)
  show "match (createMatcher nm m g p) k = m (toLowerCase k)"
    by (rule match_createMatcher)
  show "findIn (sortByPriority ps) k =
       find (\<lambda>q. match q k \<and> (\<forall>r\<in>set ps. match r k \<longrightarrow> priority r \<le> priority q)) ps"
    by (rule findIn_sortByPriority)
  show "sorted_wrt (\<lambda>a b. priority b \<le> priority a) (sortByPriority ps)"
    by (rule sortByPriority_descending)
  show "filter (\<lambda>q. priority q = n) (sortByPriority ps) = filter (\<lambda>q. priority q = n) ps"
    by (rule sortByPriority_stable)
  show "findPattern k pth = findIn (sortByPriority declaredPatterns) k"
    by (simp add: findPattern_def builtInPatterns_def)
  show "\<forall>q\<in>set declaredPatterns. match q k = match q (toLowerCase k)"
    by (simp add: match_lower)
  show "M1 \<in> set builtInPatterns \<and> M2 \<in> set builtInPatterns \<and> priority M1 = 90 \<and> priority M2 = 60
        \<and> match M1 k \<and> match M2 k \<longrightarrow> findPattern k pth = Some M1"
  proof
    assume h: "M1 \<in> set builtInPatterns \<and> M2 \<in> set builtInPatterns \<and> priority M1 = 90
        \<and> priority M2 = 60 \<and> match M1 k \<and> match M2 k"
    then have "M1 \<in> set declaredPatterns" "90 \<le> priority M1" "match M1 k"
      by (simp_all add: builtInPatterns_def set_sortByPriority)
    then show "findPattern k pth = Some M1" by (rule builtIn_exact_wins)
  qed
  show "priority N1 = 90 \<and> priority N2 = 60 \<and> match N1 k \<and> match N2 k \<longrightarrow>
        findIn (sortByPriority [N1, N2]) k = Some N1 \<and> findIn (sortByPriority [N2, N1]) k = Some N1"
    by (simp add: findIn_sortByPriority)
qed

theorem findPattern_first_by_priority_witness:
  "findPattern ''firstName'' ''user.firstName'' =
     Some (createMatcher ''firstName''
        (\<lambda>k. k = ''firstname'' \<or> k = ''first_name'' \<or> k = ''givenname'') ''firstName'' 90)
   \<and> findIn (sortByPriority
        [createMatcher ''suffixDate'' (\<lambda>k. endsWith k ''date'') ''date'' 60,
         createMatcher ''orderDate'' (\<lambda>k. k = ''orderdate'') ''date'' 90]) ''orderDate''
     = Some (createMatcher ''orderDate'' (\<lambda>k. k = ''orderdate'') ''date'' 90)"
proof -
  let ?M1 = "createMatcher ''firstName''
        (\<lambda>k. k = ''firstname'' \<or> k = ''first_name'' \<or> k = ''givenname'') ''firstName'' 90"
  let ?M2 = "createMatcher ''containsName''
        (\<lambda>k. includes_str k ''name'' \<and> \<not> includes_str k ''file'' \<and> \<not> includes_str k ''user'')
        ''fullName'' 60"
  let ?N1 = "createMatcher ''orderDate'' (\<lambda>k. k = ''orderdate'') ''date'' 90"
  let ?N2 = "createMatcher ''suffixDate'' (\<lambda>k. endsWith k ''date'') ''date'' 60"
  have mem: "?M1 \<in> set builtInPatterns" "?M2 \<in> set builtInPatterns"
    by (simp_all add: builtInPatterns_def set_sortByPriority declaredPatterns_def)
  have low: "toLowerCase ''firstName'' = ''firstname''" "toLowerCase ''orderDate'' = ''orderdate''"
    by (simp_all add: toLowerCase_def toLowerChar_def)
  have hyp1: "priority ?M1 = 90 \<and> priority ?M2 = 60 \<and> match ?M1 ''firstName'' \<and> match ?M2 ''firstName''"
    by (simp add: priority_createMatcher match_createMatcher low)
  have hyp2: "priority ?N1 = 90 \<and> priority ?N2 = 60 \<and> match ?N1 ''orderDate'' \<and> match ?N2 ''orderDate''"
    by (simp add: priority_createMatcher match_createMatcher low endsWith_def)
  from findPattern_first_by_priority
    [where k = "''firstName''" and pth = "''user.firstName''" and ?M1.0 = ?M1 and ?M2.0 = ?M2
       and ?N1.0 = ?M1 and ?N2.0 = ?M2] mem hyp1
  have a: "findPattern ''firstName'' ''user.firstName'' = Some ?M1" by blast
  from findPattern_first_by_priority
    [where k = "''orderDate''" and ?N1.0 = ?N1 and ?N2.0 = ?N2] hyp2
  have b: "findIn (sortByPriority [?N2, ?N1]) ''orderDate'' = Some ?N1" by blast
  from a b show ?thesis by simp
qed

text \<open>
  Claim C7. The lookup of the key \<open>username\<close> resolves to the exact matcher \<open>username\<close> of
  priority 100, and the lookup of \<open>filename\<close> resolves to no matcher at all; the predicate of
  the matcher \<open>containsName\<close> (priority 60) rejects both keys.
\<close>

theorem containsName_excluded:
  "map_option name (findPattern ''username'' pth) = Some ''username''
   \<and> map_option priority (findPattern ''username'' pth) = Some 100
   \<and> map_option name (findPattern ''filename'' pth) = None
   \<and> map (\<lambda>m. (priority m, match m ''username'', match m ''filename''))
        (filter (\<lambda>m. name m = ''containsName'') builtInPatterns) = [(60, False, False)]"
  by code_simp

section \<open>Properties of path addressing\<close>












lemma getProp_empty: "k \<notin> set protoNames \<Longrightarrow> getProp (JObj []) k = JUndefined"
  by (simp add: inherited_def)



lemma setParts_last:
  "setParts cur [part] v =
     (case arrayMatch part of
        Some (arrayKey, index) \<Rightarrow>
          bindE (ensureProp cur arrayKey (JArr [])) (\<lambda>c1.
          bindE (setIdx (getProp c1 arrayKey) index v) (\<lambda>arr.
          putBack c1 arrayKey arr))
      | None \<Rightarrow> setProp cur part v)"
  by simp


lemma noConflict_last:
  "noConflict cur [part] =
     (case arrayMatch part of
        Some (arrayKey, index) \<Rightarrow>
          canHold cur arrayKey \<and> isArray (orFresh (getProp cur arrayKey) (JArr []))
      | None \<Rightarrow> canHold cur part)"
  by simp






lemma setAt_twice: "setAt (setAt xs i w) i v = setAt xs i v"
  by (simp add: setAt_def nth_append list_update_append)





lemma setIdx_twice: "setIdx a i w = Inr a1 \<Longrightarrow> setIdx a1 i v = setIdx a i v"
  by (cases a) (auto simp: setAt_twice)



















section \<open>Properties of the cache key\<close>

lemma sort_mset_eq:
  fixes xs ys :: "string list"
  assumes "mset xs = mset ys"
  shows "sort xs = sort ys"
proof -
  have "mset (sort ys) = mset xs" using assms by simp
  moreover have "sorted (sort ys)" by simp
  ultimately show ?thesis by (rule properties_for_sort)
qed

lemma composite_pair: "composite f = (\<lambda>(p, k). p @ '':'' @ k) (path f, key f)"
  by (simp add: composite_def)

lemma generateKey_mset:
  assumes "mset (map (\<lambda>f. (path f, key f)) xs) = mset (map (\<lambda>f. (path f, key f)) ys)"
  shows "generateKey cfg xs = generateKey cfg ys"
proof -
  let ?c = "\<lambda>(p, k). p @ '':'' @ k"
  let ?pk = "\<lambda>f. (path f, key f)"
  have c: "\<And>zs. map composite zs = map ?c (map ?pk zs)"
    by (simp add: composite_def)
  from assms have "image_mset ?c (mset (map ?pk xs)) = image_mset ?c (mset (map ?pk ys))"
    by (rule arg_cong)
  then have "mset (map ?c (map ?pk xs)) = mset (map ?c (map ?pk ys))"
    by (simp only: mset_map)
  then have "mset (map composite xs) = mset (map composite ys)"
    by (simp only: c)
  then have "sort (map composite xs) = sort (map composite ys)"
    by (rule sort_mset_eq)
  then show ?thesis by (simp add: generateKey_def)
qed

text \<open>
  Claim C6, as the code has it. Two lists of field descriptors that hold the same
  \<open>(path, key)\<close> pairs, each as often in one list as in the other, in any order, have the
  same cache key; so have two lists without repeated pairs that hold the same set of pairs.
  The descriptors extracted from \<open>{a: null, b: null}\<close> and from \<open>{b: null, a: null}\<close> have
  the same key. The key is the prefix followed by the hash of the sorted \<open>path:key\<close>
  strings joined with \<open>|\<close>.
\<close>

theorem generateKey_order_independent:
  "(mset (map (\<lambda>f. (path f, key f)) xs) = mset (map (\<lambda>f. (path f, key f)) ys)
      \<longrightarrow> generateKey cfg xs = generateKey cfg ys)
   \<and> (distinct (map (\<lambda>f. (path f, key f)) xs) \<and> distinct (map (\<lambda>f. (path f, key f)) ys)
        \<and> set (map (\<lambda>f. (path f, key f)) xs) = set (map (\<lambda>f. (path f, key f)) ys)
      \<longrightarrow> generateKey cfg xs = generateKey cfg ys)
   \<and> generateKey cfg (extractEmptyFields (JObj [(''a'', JNull), (''b'', JNull)]) [] None)
       = generateKey cfg (extractEmptyFields (JObj [(''b'', JNull), (''a'', JNull)]) [] None)
   \<and> generateKey cfg xs =
       prefix_c cfg @ simpleHash (joinWith ''|'' (sort (map (\<lambda>f. path f @ '':'' @ key f) xs)))"
proof (intro conjI impI)
  assume "mset (map (\<lambda>f. (path f, key f)) xs) = mset (map (\<lambda>f. (path f, key f)) ys)"
  then show "generateKey cfg xs = generateKey cfg ys" by (rule generateKey_mset)
next
  assume "distinct (map (\<lambda>f. (path f, key f)) xs) \<and> distinct (map (\<lambda>f. (path f, key f)) ys)
        \<and> set (map (\<lambda>f. (path f, key f)) xs) = set (map (\<lambda>f. (path f, key f)) ys)"
  then have "mset (map (\<lambda>f. (path f, key f)) xs) = mset (map (\<lambda>f. (path f, key f)) ys)"
    using set_eq_iff_mset_eq_distinct by blast
  then show "generateKey cfg xs = generateKey cfg ys" by (rule generateKey_mset)
next
  show "generateKey cfg (extractEmptyFields (JObj [(''a'', JNull), (''b'', JNull)]) [] None)
       = generateKey cfg (extractEmptyFields (JObj [(''b'', JNull), (''a'', JNull)]) [] None)"
    by (rule generateKey_mset) (simp add: fieldInfo_def currentPathOf_def)
next
  show "generateKey cfg xs =
       prefix_c cfg @ simpleHash (joinWith ''|'' (sort (map (\<lambda>f. path f @ '':'' @ key f) xs)))"
    by (simp add: generateKey_def composite_def cong: map_cong)
qed

theorem generateKey_order_independent_witness:
  "generateKey \<lparr>enabled = True, persist = False, ttl = 86400, prefix_c = ''sjm_''\<rparr>
     [fieldInfo ''a'' ''a'' JNull None, fieldInfo ''b'' ''b'' JNull None] = ''sjm_w4ft1y''
   \<and> generateKey \<lparr>enabled = True, persist = False, ttl = 86400, prefix_c = ''sjm_''\<rparr>
     [fieldInfo ''b'' ''b'' JNull None, fieldInfo ''a'' ''a'' JNull None] = ''sjm_w4ft1y''"
proof -
  let ?cfg = "\<lparr>enabled = True, persist = False, ttl = 86400, prefix_c = ''sjm_''\<rparr>"
  let ?a = "fieldInfo ''a'' ''a'' JNull None"
  let ?b = "fieldInfo ''b'' ''b'' JNull None"
  have m: "mset (map (\<lambda>f. (path f, key f)) [?a, ?b]) = mset (map (\<lambda>f. (path f, key f)) [?b, ?a])"
    by (simp add: fieldInfo_def)
  have d: "distinct (map (\<lambda>f. (path f, key f)) [?a, ?b]) \<and> distinct (map (\<lambda>f. (path f, key f)) [?b, ?a])
        \<and> set (map (\<lambda>f. (path f, key f)) [?a, ?b]) = set (map (\<lambda>f. (path f, key f)) [?b, ?a])"
    by (auto simp: fieldInfo_def)
  have v: "generateKey ?cfg [?a, ?b] = ''sjm_w4ft1y''"
    by (simp add: generateKey_def composite_def fieldInfo_def simpleHash_def hashStep_def
        toStringRadix.simps digitChar_def)
  from generateKey_order_independent[of "[?a, ?b]" "[?b, ?a]" ?cfg] m d
  have "generateKey ?cfg [?a, ?b] = generateKey ?cfg [?b, ?a]" by blast
  with v show ?thesis by (simp only:)
qed

text \<open>
  The set of pairs alone does not fix the key: a pair that occurs twice is hashed twice. In
  \<open>{"a.b": {k: null}, a: {b: {k: null}}}\<close> the two missing fields have the same path
  \<open>a.b.k\<close> and the same key \<open>k\<close>; \<open>{a: {b: {k: null}}}\<close> has one such field. The two lists
  of descriptors hold the same set of pairs and have different cache keys.
\<close>

theorem generateKey_counts_repetitions:
  "set (map (\<lambda>f. (path f, key f))
         (extractEmptyFields (JObj [(''a'', JObj [(''b'', JObj [(''k'', JNull)])])]) [] None))
   = set (map (\<lambda>f. (path f, key f))
         (extractEmptyFields (JObj [(''a.b'', JObj [(''k'', JNull)]),
                                    (''a'', JObj [(''b'', JObj [(''k'', JNull)])])]) [] None))
   \<and> generateKey defaultCacheConfig
         (extractEmptyFields (JObj [(''a'', JObj [(''b'', JObj [(''k'', JNull)])])]) [] None)
     \<noteq> generateKey defaultCacheConfig
         (extractEmptyFields (JObj [(''a.b'', JObj [(''k'', JNull)]),
                                    (''a'', JObj [(''b'', JObj [(''k'', JNull)])])]) [] None)"
proof -
  let ?one = "extractEmptyFields (JObj [(''a'', JObj [(''b'', JObj [(''k'', JNull)])])]) [] None"
  let ?two = "extractEmptyFields (JObj [(''a.b'', JObj [(''k'', JNull)]),
                                    (''a'', JObj [(''b'', JObj [(''k'', JNull)])])]) [] None"
  have one: "?one = [fieldInfo ''k'' ''a.b.k'' JNull (Some ''b'')]"
    by (simp add: currentPathOf_def)
  have two: "?two = [fieldInfo ''k'' ''a.b.k'' JNull (Some ''a.b''),
                     fieldInfo ''k'' ''a.b.k'' JNull (Some ''b'')]"
    by (simp add: currentPathOf_def)
  have k1: "generateKey defaultCacheConfig [fieldInfo ''k'' ''a.b.k'' JNull (Some ''b'')]
      = ''sjm_qf2imb''"
    by (simp add: generateKey_def composite_def fieldInfo_def simpleHash_def hashStep_def
        toStringRadix.simps digitChar_def defaultCacheConfig_def)
  have k2: "generateKey defaultCacheConfig [fieldInfo ''k'' ''a.b.k'' JNull (Some ''a.b''),
                     fieldInfo ''k'' ''a.b.k'' JNull (Some ''b'')]
      = ''sjm_vaw12u''"
    by (simp add: generateKey_def composite_def fieldInfo_def simpleHash_def hashStep_def
        toStringRadix.simps digitChar_def defaultCacheConfig_def)
  have s: "set (map (\<lambda>f. (path f, key f)) ?one) = set (map (\<lambda>f. (path f, key f)) ?two)"
    unfolding one two by (simp add: fieldInfo_def)
  have "generateKey defaultCacheConfig ?one \<noteq> generateKey defaultCacheConfig ?two"
    unfolding one two k1 k2 by simp
  with s show ?thesis by (rule conjI)
qed

section \<open>Properties of \<open>fill\<close>\<close>

lemma randomIndex_less:
  assumes "0 \<le> r" "r < 1" "0 < n"
  shows "randomIndex r n < n"
proof -
  have "r * real n < real n" using assms by simp
  then have "\<lfloor>r * real n\<rfloor> < int n" by (simp add: floor_less_iff)
  moreover have "0 \<le> \<lfloor>r * real n\<rfloor>" using assms by simp
  ultimately show ?thesis unfolding randomIndex_def by linarith
qed

lemma randomIndex_zero: "randomIndex r 0 = 0"
  by (simp add: randomIndex_def)










lemma empty_enum_undefined:
  assumes "enum_o c = Some []" "generator c = None" "value_o c = None"
  shows "resolveOverride r (OvConfig c) = Inr JUndefined"
    and "localOverride r (OvConfig c) = Inr JUndefined"
  using assms by (simp_all add: randomFrom_def)

lemma enum_member:
  assumes "enum_o c = Some es" "es \<noteq> []" "generator c = None" "value_o c = None"
    "0 \<le> r" "r < 1"
  shows "\<exists>v\<in>set es. resolveOverride r (OvConfig c) = Inr v \<and> localOverride r (OvConfig c) = Inr v"
proof -
  from assms have "randomIndex r (length es) < length es"
    by (intro randomIndex_less) simp_all
  with assms show ?thesis by (simp add: randomFrom_def)
qed

text \<open>
  Claim C8, as the code has it. An override whose \<open>enum\<close> is empty (and that has neither
  \<open>generator\<close> nor \<open>value\<close>) resolves to \<open>undefined\<close> without an error, in the mocker and in
  the local provider alike; for a non-empty \<open>enum\<close> and a random number \<open>0 \<le> r < 1\<close> both
  return one of the listed elements.
\<close>

theorem enum_override_resolution:
  "(enum_o c = Some [] \<and> generator c = None \<and> value_o c = None \<longrightarrow>
      resolveOverride r (OvConfig c) = Inr JUndefined \<and> localOverride r (OvConfig c) = Inr JUndefined)
   \<and> (enum_o c = Some es \<and> es \<noteq> [] \<and> generator c = None \<and> value_o c = None \<and> 0 \<le> r \<and> r < 1 \<longrightarrow>
      (\<exists>v\<in>set es. resolveOverride r (OvConfig c) = Inr v \<and> localOverride r (OvConfig c) = Inr v))"
  using empty_enum_undefined[of c r] enum_member[of c es r] by blast

theorem enum_override_resolution_witness:
  "resolveOverride (1 / 2)
     (OvConfig \<lparr>value_o = None, generator = None, enum_o = Some [JStr ''active'', JStr ''closed''],
        min_o = None, max_o = None, length_o = None\<rparr>) = Inr (JStr ''closed'')
   \<and> localOverride (1 / 2)
     (OvConfig \<lparr>value_o = None, generator = None, enum_o = Some [],
        min_o = None, max_o = None, length_o = None\<rparr>) = Inr JUndefined"
proof -
  let ?c = "\<lparr>value_o = None, generator = None, enum_o = Some [JStr ''active'', JStr ''closed''],
        min_o = None, max_o = None, length_o = None\<rparr>"
  let ?d = "\<lparr>value_o = None, generator = None, enum_o = Some [],
        min_o = None, max_o = None, length_o = None\<rparr>"
  have i: "randomIndex (1 / 2) (Suc (Suc 0)) = Suc 0" by (simp add: randomIndex_def)
  from enum_override_resolution[where c = ?c and es = "[JStr ''active'', JStr ''closed'']" and r = "1 / 2"]
       enum_override_resolution[where c = ?d and es = "[]" and r = "1 / 2"]
  show ?thesis by (simp add: randomFrom_def i)
qed

text \<open>
  The empty \<open>enum\<close> at a concrete override: resolution succeeds with \<open>undefined\<close>; no error
  of any kind is raised.
\<close>

theorem empty_enum_resolves_silently:
  "resolveOverride (1 / 2)
     (OvConfig \<lparr>value_o = None, generator = None, enum_o = Some [],
        min_o = None, max_o = None, length_o = None\<rparr>) = Inr JUndefined"
  by (simp add: randomIndex_def)

lemma retry_returns_first:
  assumes "fn w = (Inr r, w')" "0 < m"
  shows "retry fn m baseDelay w = (Inr r, w')"
  using assms by (simp add: retry_def retry_from.simps)

lemma retry_no_attempt: "retry fn 0 baseDelay w = (Inl ThrownUndefined, w)"
  by (simp add: retry_def retry_from.simps)

lemma generateForFields_requests:
  "requests (snd (generateForFields e req w)) = requests w @ [req]"
  "delays (snd (generateForFields e req w)) = delays w"
  by (auto simp: generateForFields_def Let_def split: reply.splits sum.splits)

lemma retry_provider_once:
  "length (requests (snd (retry (callProvider e req) n d w)))
     \<le> Suc (length (requests w))
   \<and> delays (snd (retry (callProvider e req) n d w))
     = delays w"
proof (cases n)
  case 0
  then show ?thesis by (simp add: retry_no_attempt)
next
  case (Suc m)
  obtain res w' where g: "generateForFields e req w = (res, w')" by (cases "generateForFields e req w")
  then have "retry (callProvider e req) n d w = (Inr res, w')"
    using Suc by (intro retry_returns_first) (simp_all add: callProvider_def)
  moreover have "requests w' = requests w @ [req]" "delays w' = delays w"
    using generateForFields_requests[of e req w] g by simp_all
  ultimately show ?thesis by simp
qed

lemma generateWithAI_once:
  "length (requests (snd (generateWithAI cfg e flds ctx ovs w))) \<le> Suc (length (requests w))
   \<and> delays (snd (generateWithAI cfg e flds ctx ovs w)) = delays w"
proof -
  let ?req = "\<lparr>req_fields = flds, req_context = ctx, req_overrides = ovs\<rparr>"
  let ?n = "case maxRetries cfg of Some n \<Rightarrow> n | None \<Rightarrow> 3"
  obtain cv c where cg: "cacheGet (cacheConfig cfg) (now e) (cache w) (generateKey (cacheConfig cfg) flds) = (cv, c)"
    by (cases "cacheGet (cacheConfig cfg) (now e) (cache w) (generateKey (cacheConfig cfg) flds)")
  let ?w1 = "w\<lparr>cache := c, lookups := lookups w @ [generateKey (cacheConfig cfg) flds]\<rparr>"
  from retry_provider_once[of e ?req ?n 1000 ?w1]
  show ?thesis
    by (auto simp: generateWithAI_def Let_def cg split: prod.splits sum.splits option.splits)
qed

lemma fill_once:
  "length (requests (snd (fill cfg e obj options w))) \<le> Suc (length (requests w))
   \<and> delays (snd (fill cfg e obj options w)) = delays w"
proof (cases "deepClone obj")
  case (Inl x)
  then show ?thesis by (simp add: fill_def)
next
  case (Inr c)
  with generateWithAI_once[of cfg e "filterFields options (extractEmptyFields c [] None)"
      "context_o options" "mergeOverrides (mocker_overrides cfg) (overrides options)" w]
  show ?thesis
    by (auto simp: fill_def Let_def split: prod.splits sum.splits option.splits)
qed

lemma cacheGet_empty: "cacheGet cfg t [] k = (None, [])"
  by (simp add: cacheGet_def)

lemma fill_never_retries_eval:
  fixes cfg e
  defines "cfg \<equiv> \<lparr>maxRetries = Some 3, cacheConfig = defaultCacheConfig, mocker_overrides = []\<rparr>"
    and "e \<equiv> \<lparr>service = (\<lambda>req n. Rejects ''Request timeout''), now = 0\<rparr>"
  shows "fill cfg e (JObj [(''a'', JNull)]) noOptions emptyWorld
     = (Inl (Error ''Failed to generate data with AI provider''),
        \<lparr>cache = [],
         requests = [\<lparr>req_fields = [fieldInfo ''a'' ''a'' JNull None], req_context = None,
                      req_overrides = []\<rparr>],
         delays = [],
         lookups = [generateKey defaultCacheConfig [fieldInfo ''a'' ''a'' JNull None]]\<rparr>)"
proof -
  let ?flds = "[fieldInfo ''a'' ''a'' JNull None]"
  let ?req = "\<lparr>req_fields = ?flds, req_context = None, req_overrides = []\<rparr>"
  let ?w1 = "\<lparr>cache = [], requests = [], delays = [],
              lookups = [generateKey defaultCacheConfig ?flds]\<rparr>"
  have c: "deepClone (JObj [(''a'', JNull)]) = Inr (JObj [(''a'', JNull)])"
    by (simp add: bindE_def)
  have g: "generateForFields e ?req ?w1 = (failure ''Request timeout'', ?w1\<lparr>requests := [?req]\<rparr>)"
    by (simp add: generateForFields_def e_def)
  have r: "retry (callProvider e ?req) 3 1000 ?w1
      = (Inr (failure ''Request timeout''), ?w1\<lparr>requests := [?req]\<rparr>)"
    by (rule retry_returns_first) (simp_all add: g callProvider_def)
  have "generateWithAI cfg e ?flds None [] emptyWorld
      = (Inl (Error ''Failed to generate data with AI provider''), ?w1\<lparr>requests := [?req]\<rparr>)"
    by (simp add: generateWithAI_def Let_def cfg_def emptyWorld_def cacheGet_empty r failure_def)
  then show ?thesis
    by (simp add: fill_def c Let_def mergeOverrides_def cfg_def filterFields_def noOptions_def
        currentPathOf_def del: deepClone.simps)
qed

text \<open>
  Claim C2. The mocker is configured with three attempts and the service rejects every call
  (a timeout). \<open>fill\<close> on \<open>{a: null}\<close> misses the cache, sends one request, awaits no
  delay and rejects with the error of \<open>generateWithAI\<close>. In general a call of \<open>fill\<close>
  sends at most one request and awaits no delay, whatever the service does: the provider
  catches every failure and returns \<open>{ success: false }\<close>, so the function handed to
  \<open>retry\<close> never throws and the loop ends with its first attempt.
\<close>

theorem fill_never_retries:
  "fill \<lparr>maxRetries = Some 3, cacheConfig = defaultCacheConfig, mocker_overrides = []\<rparr>
        \<lparr>service = (\<lambda>req n. Rejects ''Request timeout''), now = 0\<rparr>
        (JObj [(''a'', JNull)]) noOptions emptyWorld
     = (Inl (Error ''Failed to generate data with AI provider''),
        \<lparr>cache = [],
         requests = [\<lparr>req_fields = [fieldInfo ''a'' ''a'' JNull None], req_context = None,
                      req_overrides = []\<rparr>],
         delays = [],
         lookups = [generateKey defaultCacheConfig [fieldInfo ''a'' ''a'' JNull None]]\<rparr>)
   \<and> length (requests (snd (fill cfg e obj options w))) \<le> Suc (length (requests w))
   \<and> delays (snd (fill cfg e obj options w)) = delays w"
  using fill_never_retries_eval fill_once[of cfg e obj options w] by simp

lemma fill_override_eval:
  fixes cfg e ov
  defines "cfg \<equiv> \<lparr>maxRetries = None, cacheConfig = defaultCacheConfig, mocker_overrides = []\<rparr>"
    and "e \<equiv> \<lparr>service = (\<lambda>req n. Parsed (JObj [(''status'', JStr ''pending'')])), now = 0\<rparr>"
    and "ov \<equiv> OvConfig \<lparr>value_o = None, generator = None,
              enum_o = Some [JStr ''active'', JStr ''closed''], min_o = None, max_o = None,
              length_o = None\<rparr>"
  shows "fill cfg e (JObj [(''status'', JNull)]) (noOptions\<lparr>overrides := [(''status'', ov)]\<rparr>) emptyWorld
     = (Inr (JObj [(''status'', JStr ''pending'')]),
        \<lparr>cache = cacheSet defaultCacheConfig 0 []
                   (generateKey defaultCacheConfig [fieldInfo ''status'' ''status'' JNull None])
                   (JObj [(''status'', JStr ''pending'')]),
         requests = [\<lparr>req_fields = [fieldInfo ''status'' ''status'' JNull None],
                      req_context = None, req_overrides = [(''status'', ov)]\<rparr>],
         delays = [],
         lookups = [generateKey defaultCacheConfig [fieldInfo ''status'' ''status'' JNull None]]\<rparr>)"
proof -
  let ?flds = "[fieldInfo ''status'' ''status'' JNull None]"
  let ?req = "\<lparr>req_fields = ?flds, req_context = None, req_overrides = [(''status'', ov)]\<rparr>"
  let ?d = "JObj [(''status'', JStr ''pending'')]"
  let ?w1 = "\<lparr>cache = [], requests = [], delays = [],
              lookups = [generateKey defaultCacheConfig ?flds]\<rparr>"
  have g: "generateForFields e ?req ?w1
      = (\<lparr>success = True, data = Some ?d, error = None\<rparr>, ?w1\<lparr>requests := [?req]\<rparr>)"
    by (simp add: generateForFields_def e_def objectKeys_def bindE_def)
  have r: "retry (callProvider e ?req) 3 1000 ?w1
      = (Inr \<lparr>success = True, data = Some ?d, error = None\<rparr>, ?w1\<lparr>requests := [?req]\<rparr>)"
    by (rule retry_returns_first) (simp_all add: g callProvider_def)
  have gw: "generateWithAI cfg e ?flds None [(''status'', ov)] emptyWorld
      = (Inr \<lparr>success = True, data = Some ?d, error = None\<rparr>,
         \<lparr>cache = cacheSet defaultCacheConfig 0 [] (generateKey defaultCacheConfig ?flds) ?d,
          requests = [?req], delays = [], lookups = [generateKey defaultCacheConfig ?flds]\<rparr>)"
    by (simp add: generateWithAI_def Let_def cfg_def emptyWorld_def cacheGet_empty r)
       (simp add: e_def)
  have m: "mergeEntries (JObj [(''status'', JNull)]) [(''status'', JStr ''pending'')] = Inr ?d"
    by (simp add: setNestedValue_def splitDot_def splitDot_step_def arrayMatch_def bindE_def)
  have c: "deepClone (JObj [(''status'', JNull)]) = Inr (JObj [(''status'', JNull)])"
    by (simp add: bindE_def)
  from gw m show ?thesis
    by (simp add: fill_def c Let_def mergeOverrides_def cfg_def filterFields_def noOptions_def
        currentPathOf_def bindE_def del: deepClone.simps)
qed

text \<open>
  Claim C1. The record is \<open>{status: null}\<close>, the call carries the override
  \<open>status: { enum: ["active", "closed"] }\<close>, and the service answers
  \<open>{"status": "pending"}\<close>. The request that \<open>fill\<close> sends holds the field \<open>status\<close>
  together with the override, and the result is \<open>{status: "pending"}\<close>: \<open>fill\<close> does not
  resolve the override itself and does not withhold the field from the service.
\<close>

theorem fill_sends_overridden_field:
  "fill \<lparr>maxRetries = None, cacheConfig = defaultCacheConfig, mocker_overrides = []\<rparr>
        \<lparr>service = (\<lambda>req n. Parsed (JObj [(''status'', JStr ''pending'')])), now = 0\<rparr>
        (JObj [(''status'', JNull)])
        (noOptions\<lparr>overrides := [(''status'', OvConfig \<lparr>value_o = None, generator = None,
              enum_o = Some [JStr ''active'', JStr ''closed''], min_o = None, max_o = None,
              length_o = None\<rparr>)]\<rparr>)
        emptyWorld
     = (Inr (JObj [(''status'', JStr ''pending'')]),
        \<lparr>cache = cacheSet defaultCacheConfig 0 []
                   (generateKey defaultCacheConfig [fieldInfo ''status'' ''status'' JNull None])
                   (JObj [(''status'', JStr ''pending'')]),
         requests = [\<lparr>req_fields = [fieldInfo ''status'' ''status'' JNull None],
                      req_context = None,
                      req_overrides = [(''status'', OvConfig \<lparr>value_o = None, generator = None,
                         enum_o = Some [JStr ''active'', JStr ''closed''], min_o = None,
                         max_o = None, length_o = None\<rparr>)]\<rparr>],
         delays = [],
         lookups = [generateKey defaultCacheConfig [fieldInfo ''status'' ''status'' JNull None]]\<rparr>)"
  by (rule fill_override_eval)

section \<open>Properties of the store\<close>

lemma clone_extends:
  "cloneValue n v h = Inr (v', h') \<Longrightarrow> prefix h h'"
  "cloneAll n vs h = Inr (vs', h') \<Longrightarrow> prefix h h'"
proof (induction n v h and n vs h arbitrary: v' h' and vs' h' rule: cloneValue_cloneAll.induct)
qed (auto simp: bindE_def alloc_def intro: prefix_prefix prefix_order.trans
      split: option.splits cell.splits sum.splits prod.splits)

lemma deepClone_h_keeps_cells:
  assumes "deepClone_h v h = Inr (v', h')"
  shows "take (length h) h' = h"
  using clone_extends(1)[of "Suc (length h)" v h v' h'] assms
  by (auto simp: deepClone_h_def prefix_def)

text \<open>
  Claim C9. A mocker is used twice. The service answers the first call, \<open>fill({a: null})\<close>,
  with \<open>{"a": {"x": 1}, "a.b.c": 1, "a.b": {}}\<close>; the result \<open>r1\<close> holds, as \<open>r1.a\<close>, an object
  of these data, and the cache keeps a reference to the same data. The second call is
  \<open>fill({a: null, keep: r1.a})\<close>: the record passed in is \<open>{a: null, keep: {x: 1, b: {}}}\<close>
  before the call and \<open>{a: null, keep: {x: 1, b: {c: 1}}}\<close> after it. The copy that \<open>fill\<close>
  makes of its input is written, but the cached data are merged into it by reference, and
  the write for the path \<open>a.b.c\<close> descends into an object that the input shares with them.
  (Cell \<open>0\<close> of the store is the first input, cell \<open>6\<close> the second; \<open>before\<close> and \<open>after\<close> differ
  at \<open>keep.b\<close>.)
\<close>

theorem fill_writes_into_shared_input:
  fixes cfg e k req entry s1 input2 s2 before after
  defines "cfg \<equiv> \<lparr>maxRetries = None, cacheConfig = defaultCacheConfig, mocker_overrides = []\<rparr>"
    and "e \<equiv> \<lparr>service = (\<lambda>req n. Parsed (JObj [(''a'', JObj [(''x'', JNum 1)]),
                                  (''a.b.c'', JNum 1), (''a.b'', JObj [])])), now = 0\<rparr>"
    and "k \<equiv> generateKey defaultCacheConfig [fieldInfo ''a'' ''a'' JNull None]"
    and "req \<equiv> \<lparr>req_fields = [fieldInfo ''a'' ''a'' JNull None], req_context = None,
                req_overrides = []\<rparr>"
    and "entry \<equiv> \<lparr>cached = HRef 4, timestamp = 0, entry_ttl = 86400\<rparr>"
    and "s1 \<equiv> [ObjCell [(''a'', HNull)], ObjCell [(''a'', HRef 2)],
               ObjCell [(''x'', HNum 1), (''b'', HRef 3)], ObjCell [],
               ObjCell [(''a'', HRef 2), (''a.b.c'', HNum 1), (''a.b'', HRef 3)],
               ObjCell [(''c'', HNum 1)]]"
    and "input2 \<equiv> ObjCell [(''a'', HNull), (''keep'', HRef 2)]"
    and "s2 \<equiv> [ObjCell [(''a'', HNull)], ObjCell [(''a'', HRef 2)],
               ObjCell [(''x'', HNum 1), (''b'', HRef 3)], ObjCell [(''c'', HNum 1)],
               ObjCell [(''a'', HRef 2), (''a.b.c'', HNum 1), (''a.b'', HRef 3)],
               ObjCell [(''c'', HNum 1)],
               input2, ObjCell [], ObjCell [(''x'', HNum 1), (''b'', HRef 7)],
               ObjCell [(''a'', HRef 2), (''keep'', HRef 8)]]"
    and "before \<equiv> JObj [(''a'', JNull), (''keep'', JObj [(''x'', JNum 1), (''b'', JObj [])])]"
    and "after \<equiv> JObj [(''a'', JNull),
                       (''keep'', JObj [(''x'', JNum 1), (''b'', JObj [(''c'', JNum 1)])])]"
  shows "fill_h cfg e (HRef 0) noOptions
           \<lparr>cache = [], requests = [], delays = [], lookups = [],
            store = [ObjCell [(''a'', HNull)]]\<rparr>
         = (Inr (HRef 1),
            \<lparr>cache = [(k, entry)], requests = [req], delays = [], lookups = [k], store = s1\<rparr>)
       \<and> getProp_h s1 (HRef 1) ''a'' = HRef 2
       \<and> treeOf (s1 @ [input2]) (HRef 6) = Some before
       \<and> fill_h cfg e (HRef 6) noOptions
           \<lparr>cache = [(k, entry)], requests = [req], delays = [], lookups = [k],
            store = s1 @ [input2]\<rparr>
         = (Inr (HRef 9),
            \<lparr>cache = [(k, entry)], requests = [req], delays = [], lookups = [k, k], store = s2\<rparr>)
       \<and> treeOf s2 (HRef 6) = Some after
       \<and> before \<noteq> after"
proof -
  let ?flds = "[fieldInfo ''a'' ''a'' JNull None]"
  let ?c0 = "[ObjCell [(''a'', HNull)], ObjCell [(''a'', HNull)]]"
  let ?d1 = "[ObjCell [(''a'', HNull)], ObjCell [(''a'', HNull)],
             ObjCell [(''x'', HNum 1)], ObjCell [],
             ObjCell [(''a'', HRef 2), (''a.b.c'', HNum 1), (''a.b'', HRef 3)]]"
  let ?es = "[(''a'', HRef 2), (''a.b.c'', HNum 1), (''a.b'', HRef 3)]"
  let ?c2 = "s1 @ [input2, ObjCell [], ObjCell [(''x'', HNum 1), (''b'', HRef 7)],
                   ObjCell [(''a'', HNull), (''keep'', HRef 8)]]"
  have fl: "filterFields noOptions ?flds = ?flds"
    by (simp add: filterFields_def noOptions_def)
  have mo: "mergeOverrides (mocker_overrides cfg) (overrides noOptions) = []"
    by (simp add: mergeOverrides_def cfg_def noOptions_def)
  have ctx: "context_o noOptions = None"
    by (simp add: noOptions_def)
  have sp: "splitDot ''a'' = [''a'']" "splitDot ''a.b.c'' = [''a'', ''b'', ''c'']"
    "splitDot ''a.b'' = [''a'', ''b'']"
    by (simp_all add: splitDot_def splitDot_step_def)
  have am: "arrayMatch ''a'' = None" "arrayMatch ''b'' = None" "arrayMatch ''c'' = None"
    by (simp_all add: arrayMatch_def)

  have clone1: "deepClone_h (HRef 0) [ObjCell [(''a'', HNull)]] = Inr (HRef 1, ?c0)"
    by (simp add: deepClone_h_def cellAt_def alloc_def bindE_def)
  have fields1: "extractEmptyFields_h ?c0 (HRef (Suc 0)) = ?flds"
    by (simp add: extractEmptyFields_h_def treeOf_def cellAt_def currentPathOf_def)
  have provider: "generateForFields_h e req
       \<lparr>cache = [], requests = [], delays = [], lookups = [k], store = ?c0\<rparr>
     = (\<lparr>success = True, data = Some (HRef 4), error = None\<rparr>,
        \<lparr>cache = [], requests = [req], delays = [], lookups = [k], store = ?d1\<rparr>)"
    by (simp add: generateForFields_h_def generateForFields_def e_def objectKeys_def bindE_def
        alloc_def)
  have once: "retry (callProvider_h e req) 3 1000
       \<lparr>cache = [], requests = [], delays = [], lookups = [k], store = ?c0\<rparr>
     = (Inr \<lparr>success = True, data = Some (HRef 4), error = None\<rparr>,
        \<lparr>cache = [], requests = [req], delays = [], lookups = [k], store = ?d1\<rparr>)"
    by (rule retry_returns_first) (simp_all add: provider callProvider_h_def)
  have miss: "generateWithAI_h cfg e ?flds None []
       \<lparr>cache = [], requests = [], delays = [], lookups = [], store = ?c0\<rparr>
     = (Inr \<lparr>success = True, data = Some (HRef 4), error = None\<rparr>,
        \<lparr>cache = [(k, entry)], requests = [req], delays = [], lookups = [k],
         store = ?d1\<rparr>)"
    unfolding generateWithAI_h_def
    by (simp add: Let_def cfg_def cacheGet_empty once k_def[symmetric] req_def[symmetric])
       (simp add: e_def cacheSet_def defaultCacheConfig_def entry_def)
  have entries1: "objectEntries_h ?d1 (HRef 4) = Inr ?es"
    by (simp add: cellAt_def)
  have merge1: "mergeEntries_h (HRef (Suc 0)) ?es ?d1 = (None, s1)"
    by (simp add: setNestedValue_h_def sp am s1_def andThen_def attempt_def ensureProp_h_def
        cellAt_def alloc_def protoNames_def inherited_h_def)
  have first: "fill_h cfg e (HRef 0) noOptions
       \<lparr>cache = [], requests = [], delays = [], lookups = [],
        store = [ObjCell [(''a'', HNull)]]\<rparr>
     = (Inr (HRef 1),
        \<lparr>cache = [(k, entry)], requests = [req], delays = [], lookups = [k], store = s1\<rparr>)"
    unfolding fill_h_def
    by (simp add: clone1 fields1 fl mo ctx miss entries1 merge1 Let_def
        del: objectEntries_h.simps mergeEntries_h.simps)

  have shared: "getProp_h s1 (HRef 1) ''a'' = HRef 2"
    by (simp add: s1_def cellAt_def)
  have tree_before: "treeOf (s1 @ [input2]) (HRef 6) = Some before"
    by (simp add: treeOf_def s1_def input2_def before_def cellAt_def)

  have clone2: "deepClone_h (HRef 6) (s1 @ [input2]) = Inr (HRef 9, ?c2)"
    by (simp add: deepClone_h_def s1_def input2_def cellAt_def alloc_def bindE_def)
  have fields2: "extractEmptyFields_h ?c2 (HRef 9) = ?flds"
    by (simp add: extractEmptyFields_h_def treeOf_def s1_def input2_def cellAt_def
        currentPathOf_def)
  have lookup: "cacheGet defaultCacheConfig 0 [(k, entry)] k = (Some (HRef 4), [(k, entry)])"
    by (simp add: cacheGet_def defaultCacheConfig_def entry_def)
  have hit: "generateWithAI_h cfg e ?flds None []
       \<lparr>cache = [(k, entry)], requests = [req], delays = [], lookups = [k], store = ?c2\<rparr>
     = (Inr \<lparr>success = True, data = Some (HRef 4), error = None\<rparr>,
        \<lparr>cache = [(k, entry)], requests = [req], delays = [], lookups = [k, k], store = ?c2\<rparr>)"
    unfolding generateWithAI_h_def
    by (simp add: Let_def cfg_def k_def[symmetric] e_def lookup)
  have entries2: "objectEntries_h ?c2 (HRef 4) = Inr ?es"
    by (simp add: s1_def cellAt_def)
  have merge2: "mergeEntries_h (HRef 9) ?es ?c2 = (None, s2)"
    by (simp add: setNestedValue_h_def sp am s1_def s2_def input2_def andThen_def attempt_def
        ensureProp_h_def cellAt_def alloc_def protoNames_def inherited_h_def)
  have second: "fill_h cfg e (HRef 6) noOptions
       \<lparr>cache = [(k, entry)], requests = [req], delays = [], lookups = [k],
        store = s1 @ [input2]\<rparr>
     = (Inr (HRef 9),
        \<lparr>cache = [(k, entry)], requests = [req], delays = [], lookups = [k, k], store = s2\<rparr>)"
    unfolding fill_h_def
    by (simp add: clone2 fields2 fl mo ctx hit entries2 merge2 Let_def
        del: objectEntries_h.simps mergeEntries_h.simps)

  have tree_after: "treeOf s2 (HRef 6) = Some after"
    by (simp add: treeOf_def s2_def input2_def after_def cellAt_def)
  have changed: "before \<noteq> after"
    by (simp add: before_def after_def)
  from first shared tree_before second tree_after changed show ?thesis
    by (intro conjI)
qed

end
